theory Spec2Isabelle
  imports Complex_Main "HOL-Library.Word"
begin

section \<open>Hub firmware of the greenhouse system: data model\<close>

text \<open>
  The hub firmware keeps one \<open>GreenhouseData\<close> record per node in the global array
  \<open>greenhouses[MAX_GREENHOUSES + 1]\<close>, sends \<open>ControlMessage\<close>s over ESP-NOW,
  stores the settings in EEPROM and synchronises with the Firebase real-time database.
  The header \<open>config.h\<close> is not part of the sources, so \<open>MAX_GREENHOUSES\<close> and
  \<open>sizeof(SensorData)\<close> are parameters of the functions that use them.
\<close>

subsection \<open>C \<open>float\<close> values\<close>

text \<open>
  The code only classifies and compares its \<open>float\<close> values (\<open>isnan\<close>, \<open><\<close>,
  \<open>>\<close>, \<open>!=\<close>) and copies them. A value is a NaN, an infinity or a finite number; the
  comparisons of IEEE 754 on finite values are those of the numbers, every comparison
  with a NaN is false and \<open>!=\<close> with a NaN is true. Both zeros are \<open>Fin 0\<close>.
\<close>

datatype cfloat = NaN | PInf | NInf | Fin real

fun isnan :: "cfloat \<Rightarrow> bool" where
  "isnan NaN = True"
| "isnan PInf = False"
| "isnan NInf = False"
| "isnan (Fin r) = False"

fun f_less :: "cfloat \<Rightarrow> cfloat \<Rightarrow> bool" where
  "f_less NaN y = False"
| "f_less PInf y = False"
| "f_less NInf NaN = False"
| "f_less NInf NInf = False"
| "f_less NInf PInf = True"
| "f_less NInf (Fin b) = True"
| "f_less (Fin a) NaN = False"
| "f_less (Fin a) NInf = False"
| "f_less (Fin a) PInf = True"
| "f_less (Fin a) (Fin b) = (a < b)"

definition f_greater :: "cfloat \<Rightarrow> cfloat \<Rightarrow> bool" where
  "f_greater x y = f_less y x"

definition f_neq :: "cfloat \<Rightarrow> cfloat \<Rightarrow> bool" where
  "f_neq x y = (isnan x \<or> isnan y \<or> x \<noteq> y)"

subsection \<open>The structs of \<open>data_structures.h\<close>\<close>

type_synonym uint8 = "8 word"
type_synonym uint32 = "32 word"

record SensorData =
  nodeId :: uint8
  temperature :: cfloat
  humidity :: cfloat
  pressure :: cfloat
  ventStatus :: uint8
  timestamp :: uint32

record ScheduleSettings =
  openHour :: uint8
  openMinute :: uint8
  closeHour :: uint8
  closeMinute :: uint8
  scheduleEnabled :: bool

record GreenhouseSettings =
  temperatureThreshold :: cfloat
  hysteresis :: cfloat
  autoMode :: bool
  manualCommand :: char
  schedule :: ScheduleSettings

text \<open>\<open>unsigned long\<close> has 32 bits on the ESP32; \<open>lastSeen\<close> holds a \<open>millis()\<close> reading.\<close>

record GreenhouseData =
  sensor :: SensorData
  settings :: GreenhouseSettings
  isOnline :: bool
  lastSeen :: uint32

text \<open>
  The fields of \<open>ControlMessage\<close> carry the prefix \<open>msg_\<close> where the struct repeats a
  field name of \<open>GreenhouseSettings\<close>.
\<close>

record ControlMessage =
  targetNodeId :: uint8
  tempThreshold :: cfloat
  msg_hysteresis :: cfloat
  msg_autoMode :: bool
  msg_manualCommand :: char

subsection \<open>The remote documents and the state of the hub\<close>

text \<open>
  What the download loop of \<open>syncWithFirebase\<close> reads of the document
  \<open>/greenhouses/i/settings\<close>: each of the four keys is absent (\<open>result.success\<close> is
  false) or holds the value that \<open>result.to<float>()\<close> or \<open>result.to<String>()\<close> returns.
\<close>

record SettingsDoc =
  doc_temperatureThreshold :: "cfloat option"
  doc_hysteresis :: "cfloat option"
  doc_mode :: "string option"
  doc_manualControl :: "string option"

text \<open>
  The state the functions read and write:
  \<^item> \<open>greenhouses\<close>, the global array, indexed from 0;
  \<^item> \<open>radio\<close>, every call of \<open>esp_now_send\<close> so far, oldest first, with the message
    handed over and whether the call returned \<open>ESP_OK\<close>;
  \<^item> \<open>eeprom\<close>, the record stored in each slot (slot \<open>k\<close> is the address
    \<open>k * sizeof(GreenhouseSettings)\<close>); any bytes decode to some record;
  \<^item> \<open>rtdb_settings\<close>, the remote document \<open>/greenhouses/i/settings\<close>, \<open>None\<close> when
    \<open>getJSON\<close> fails or the data is not JSON;
  \<^item> \<open>rtdb_lastControlAll\<close>, the remote record \<open>/system/lastControlAll\<close>.
  A write to the remote database that the code issues is taken to reach the database.
  Output on \<open>Serial\<close> and the registration of the broadcast peer are left out.
\<close>

record hub =
  greenhouses :: "GreenhouseData list"
  radio :: "(ControlMessage \<times> bool) list"
  eeprom :: "nat \<Rightarrow> GreenhouseSettings"
  rtdb_settings :: "nat \<Rightarrow> SettingsDoc option"
  rtdb_lastControlAll :: "(string \<times> uint32) option"

section \<open>\<open>esp_now_comm.cpp\<close>\<close>

text \<open>
  \<open>sendControlToNode\<close>. The parameter \<open>esp_now_send\<close> says, for the number of calls
  made before, whether the next call of \<open>esp_now_send\<close> returns \<open>ESP_OK\<close>. The index
  \<open>nodeId\<close> is used as it is: the theorems are about indices inside the array.
\<close>

definition sendControlToNode :: "(nat \<Rightarrow> bool) \<Rightarrow> uint8 \<Rightarrow> hub \<Rightarrow> hub" where
  "sendControlToNode esp_now_send nid w =
     (let g = greenhouses w ! unat nid in
      if \<not> isOnline g then w
      else
        let controlMsg = \<lparr>targetNodeId = nid,
                          tempThreshold = temperatureThreshold (settings g),
                          msg_hysteresis = hysteresis (settings g),
                          msg_autoMode = autoMode (settings g),
                          msg_manualCommand = manualCommand (settings g)\<rparr>;
            result = esp_now_send (length (radio w))
        in w\<lparr>radio := radio w @ [(controlMsg, result)],
             greenhouses := (greenhouses w)
               [unat nid := g\<lparr>settings := (settings g)\<lparr>manualCommand := CHR 0x00\<rparr>\<rparr>]\<rparr>)"

text \<open>
  The body of the loop of \<open>sendControlToAllNodes\<close> for the index \<open>i\<close>; \<open>now\<close> is what
  \<open>millis()\<close> returns in this iteration. The subtraction and the comparison are those of
  \<open>unsigned long\<close>.
\<close>

definition controlAll_body :: "(nat \<Rightarrow> bool) \<Rightarrow> uint32 \<Rightarrow> char \<Rightarrow> nat \<Rightarrow> hub \<Rightarrow> hub" where
  "controlAll_body esp_now_send now command i w =
     (let g = greenhouses w ! i in
      if \<not> isOnline g \<or> now - lastSeen g > 300000 then w
      else
        let s1 = (settings g)\<lparr>manualCommand := command\<rparr>;
            s2 = (if command = CHR ''O'' \<or> command = CHR ''C''
                  then s1\<lparr>autoMode := False\<rparr> else s1);
            w1 = w\<lparr>greenhouses := (greenhouses w)[i := g\<lparr>settings := s2\<rparr>]\<rparr>
        in sendControlToNode esp_now_send (of_nat i) w1)"

text \<open>
  \<open>sendControlToAllNodes\<close>. \<open>millis i\<close> is the reading of \<open>millis()\<close> in iteration
  \<open>i\<close> of the loop and \<open>millis (MAX_GREENHOUSES + 1)\<close> the one taken for the timestamp;
  \<open>cloud_ready\<close> is \<open>WiFi.status() == WL_CONNECTED && Firebase.ready()\<close>.
\<close>

definition sendControlToAllNodes ::
    "nat \<Rightarrow> (nat \<Rightarrow> bool) \<Rightarrow> (nat \<Rightarrow> uint32) \<Rightarrow> bool \<Rightarrow> char \<Rightarrow> hub \<Rightarrow> hub" where
  "sendControlToAllNodes MAX_GREENHOUSES esp_now_send millis cloud_ready command w =
     (let w1 = fold (\<lambda>i. controlAll_body esp_now_send (millis i) command i)
                 [1 ..< Suc MAX_GREENHOUSES] w
      in if cloud_ready
         then w1\<lparr>rtdb_lastControlAll :=
                   Some (if command = CHR ''O'' then ''open'' else ''close'',
                         millis (Suc MAX_GREENHOUSES))\<rparr>
         else w1)"

text \<open>
  \<open>onDataReceived\<close>. \<open>len\<close> is the length of the payload and \<open>receivedData\<close> the
  payload read as a \<open>SensorData\<close>, which the code does when the length is
  \<open>sizeof(SensorData)\<close>; \<open>now\<close> is the reading of \<open>millis()\<close>.
\<close>

definition onDataReceived :: "nat \<Rightarrow> int \<Rightarrow> uint32 \<Rightarrow> int \<Rightarrow> SensorData \<Rightarrow> hub \<Rightarrow> hub" where
  "onDataReceived MAX_GREENHOUSES sizeof_SensorData now len receivedData w =
     (if len = sizeof_SensorData then
        if unat (nodeId receivedData) < 1 \<or> unat (nodeId receivedData) > MAX_GREENHOUSES
        then w
        else
          let n = unat (nodeId receivedData) in
          w\<lparr>greenhouses := (greenhouses w)
              [n := (greenhouses w ! n)\<lparr>sensor := receivedData, isOnline := True,
                                        lastSeen := now\<rparr>]\<rparr>
      else w)"

section \<open>\<open>settings_eeprom.cpp\<close>\<close>

text \<open>
  \<open>saveSettingsToEEPROM\<close>: iteration \<open>i\<close> puts the settings of node \<open>i\<close> at the address
  \<open>(i-1) * sizeof(GreenhouseSettings)\<close>, that is into slot \<open>i - 1\<close>.
\<close>

definition save_body :: "nat \<Rightarrow> hub \<Rightarrow> hub" where
  "save_body i w = w\<lparr>eeprom := (eeprom w)(i - 1 := settings (greenhouses w ! i))\<rparr>"

definition saveSettingsToEEPROM :: "nat \<Rightarrow> hub \<Rightarrow> hub" where
  "saveSettingsToEEPROM MAX_GREENHOUSES w = fold save_body [1 ..< Suc MAX_GREENHOUSES] w"

text \<open>The two checks that follow \<open>EEPROM.get\<close>, on the record just read.\<close>

definition validate_settings :: "GreenhouseSettings \<Rightarrow> GreenhouseSettings" where
  "validate_settings s =
     (let s1 = (if isnan (temperatureThreshold s)
                   \<or> f_less (temperatureThreshold s) (Fin 0)
                   \<or> f_greater (temperatureThreshold s) (Fin 50)
                then s\<lparr>temperatureThreshold := Fin 25\<rparr> else s)
      in if isnan (hysteresis s1)
            \<or> f_less (hysteresis s1) (Fin 0)
            \<or> f_greater (hysteresis s1) (Fin 5)
         then s1\<lparr>hysteresis := Fin (1/2)\<rparr> else s1)"

text \<open>
  \<open>loadSettingsFromEEPROM\<close>: iteration \<open>i\<close> reads slot \<open>i - 1\<close> into the settings of
  node \<open>i\<close> and validates them.
\<close>

definition load_body :: "nat \<Rightarrow> hub \<Rightarrow> hub" where
  "load_body i w =
     w\<lparr>greenhouses := (greenhouses w)
         [i := (greenhouses w ! i)\<lparr>settings := validate_settings (eeprom w (i - 1))\<rparr>]\<rparr>"

definition loadSettingsFromEEPROM :: "nat \<Rightarrow> hub \<Rightarrow> hub" where
  "loadSettingsFromEEPROM MAX_GREENHOUSES w = fold load_body [1 ..< Suc MAX_GREENHOUSES] w"

section \<open>\<open>wifi_firebase.cpp\<close>: the download loop of \<open>syncWithFirebase\<close>\<close>

text \<open>
  The four blocks of the loop body, in the order of the source; \<open>json\<close> is the document
  read for node \<open>i\<close>. The loop counter is an \<open>int\<close> and becomes the \<open>uint8_t\<close>
  argument of \<open>sendControlToNode\<close>.
\<close>

definition upd_settings :: "nat \<Rightarrow> (GreenhouseSettings \<Rightarrow> GreenhouseSettings) \<Rightarrow> hub \<Rightarrow> hub" where
  "upd_settings i f w =
     w\<lparr>greenhouses := (greenhouses w)
         [i := (greenhouses w ! i)\<lparr>settings := f (settings (greenhouses w ! i))\<rparr>]\<rparr>"

definition pull_threshold :: "(nat \<Rightarrow> bool) \<Rightarrow> nat \<Rightarrow> SettingsDoc \<Rightarrow> hub \<Rightarrow> hub" where
  "pull_threshold esp_now_send i json w =
     (case doc_temperatureThreshold json of
        None \<Rightarrow> w
      | Some newThreshold \<Rightarrow>
          if f_neq newThreshold (temperatureThreshold (settings (greenhouses w ! i)))
          then sendControlToNode esp_now_send (of_nat i)
                 (upd_settings i (\<lambda>s. s\<lparr>temperatureThreshold := newThreshold\<rparr>) w)
          else w)"

definition pull_hysteresis :: "(nat \<Rightarrow> bool) \<Rightarrow> nat \<Rightarrow> SettingsDoc \<Rightarrow> hub \<Rightarrow> hub" where
  "pull_hysteresis esp_now_send i json w =
     (case doc_hysteresis json of
        None \<Rightarrow> w
      | Some newHysteresis \<Rightarrow>
          if f_neq newHysteresis (hysteresis (settings (greenhouses w ! i)))
          then sendControlToNode esp_now_send (of_nat i)
                 (upd_settings i (\<lambda>s. s\<lparr>hysteresis := newHysteresis\<rparr>) w)
          else w)"

definition pull_mode :: "(nat \<Rightarrow> bool) \<Rightarrow> nat \<Rightarrow> SettingsDoc \<Rightarrow> hub \<Rightarrow> hub" where
  "pull_mode esp_now_send i json w =
     (case doc_mode json of
        None \<Rightarrow> w
      | Some mode \<Rightarrow>
          let newAutoMode = (mode = ''auto'') in
          if newAutoMode \<noteq> autoMode (settings (greenhouses w ! i))
          then sendControlToNode esp_now_send (of_nat i)
                 (upd_settings i (\<lambda>s. s\<lparr>autoMode := newAutoMode\<rparr>) w)
          else w)"

definition manualCmd_of :: "string \<Rightarrow> char" where
  "manualCmd_of command =
     (if command = ''open'' then CHR ''O''
      else if command = ''close'' then CHR ''C''
      else if command = ''stop'' then CHR ''S''
      else CHR 0x00)"

text \<open>
  \<open>updateNode\<close> with the value \<open>NULL\<close> for \<open>manualControl\<close> removes the key from the
  remote document; the other keys stay.
\<close>

definition clear_manualControl :: "nat \<Rightarrow> hub \<Rightarrow> hub" where
  "clear_manualControl i w =
     w\<lparr>rtdb_settings := (rtdb_settings w)
         (i := map_option (\<lambda>d. d\<lparr>doc_manualControl := None\<rparr>) (rtdb_settings w i))\<rparr>"

definition pull_manualControl :: "(nat \<Rightarrow> bool) \<Rightarrow> nat \<Rightarrow> SettingsDoc \<Rightarrow> hub \<Rightarrow> hub" where
  "pull_manualControl esp_now_send i json w =
     (case doc_manualControl json of
        None \<Rightarrow> w
      | Some command \<Rightarrow>
          let manualCmd = manualCmd_of command in
          if manualCmd \<noteq> CHR 0x00
          then clear_manualControl i
                 (sendControlToNode esp_now_send (of_nat i)
                    (upd_settings i (\<lambda>s. s\<lparr>manualCommand := manualCmd\<rparr>) w))
          else w)"

text \<open>One iteration of the download loop, for node \<open>i\<close>.\<close>

definition pull_node :: "nat \<Rightarrow> (nat \<Rightarrow> bool) \<Rightarrow> nat \<Rightarrow> hub \<Rightarrow> hub" where
  "pull_node MAX_GREENHOUSES esp_now_send i w =
     (case rtdb_settings w i of
        None \<Rightarrow> w
      | Some json \<Rightarrow>
          saveSettingsToEEPROM MAX_GREENHOUSES
            (pull_manualControl esp_now_send i json
              (pull_mode esp_now_send i json
                (pull_hysteresis esp_now_send i json
                  (pull_threshold esp_now_send i json w)))))"

definition pull_phase :: "nat \<Rightarrow> (nat \<Rightarrow> bool) \<Rightarrow> hub \<Rightarrow> hub" where
  "pull_phase MAX_GREENHOUSES esp_now_send w =
     fold (pull_node MAX_GREENHOUSES esp_now_send) [1 ..< Suc MAX_GREENHOUSES] w"

section \<open>Auxiliary notions for the properties\<close>

text \<open>
  The condition under which the upload loop of \<open>syncWithFirebase\<close> sends the data of a
  node: the node has been heard and its last telemetry is less than 300000 ms old.
\<close>

definition isLive :: "uint32 \<Rightarrow> GreenhouseData \<Rightarrow> bool" where
  "isLive now g = (isOnline g \<and> now - lastSeen g < 300000)"

text \<open>
  The state after start-up: the default member initialisers of the structs, and zero for
  the members of the global array that have none.
\<close>

definition default_schedule :: ScheduleSettings where
  "default_schedule =
     \<lparr>openHour = 8, openMinute = 0, closeHour = 18, closeMinute = 0, scheduleEnabled = False\<rparr>"

definition default_settings :: GreenhouseSettings where
  "default_settings =
     \<lparr>temperatureThreshold = Fin 25, hysteresis = Fin (1/2), autoMode = True,
      manualCommand = CHR 0x00, schedule = default_schedule\<rparr>"

definition zero_sensor :: SensorData where
  "zero_sensor =
     \<lparr>nodeId = 0, temperature = Fin 0, humidity = Fin 0, pressure = Fin 0,
      ventStatus = 0, timestamp = 0\<rparr>"

definition unseen_node :: GreenhouseData where
  "unseen_node =
     \<lparr>sensor = zero_sensor, settings = default_settings, isOnline = False, lastSeen = 0\<rparr>"

definition boot_hub :: "nat \<Rightarrow> hub" where
  "boot_hub MAX_GREENHOUSES =
     \<lparr>greenhouses = replicate (Suc MAX_GREENHOUSES) unseen_node, radio = [],
      eeprom = (\<lambda>k. default_settings), rtdb_settings = (\<lambda>i. None),
      rtdb_lastControlAll = None\<rparr>"

text \<open>A node that has sent telemetry at time 0, with the settings \<open>s\<close>.\<close>

definition seen_node :: "uint8 \<Rightarrow> GreenhouseSettings \<Rightarrow> GreenhouseData" where
  "seen_node n s =
     \<lparr>sensor = zero_sensor\<lparr>nodeId := n\<rparr>, settings = s, isOnline = True, lastSeen = 0\<rparr>"

text \<open>A float is finite and lies between two bounds.\<close>

fun finite_within :: "real \<Rightarrow> real \<Rightarrow> cfloat \<Rightarrow> bool" where
  "finite_within lo hi (Fin r) = (lo \<le> r \<and> r \<le> hi)"
| "finite_within lo hi NaN = False"
| "finite_within lo hi PInf = False"
| "finite_within lo hi NInf = False"

text \<open>
  A sequence of payloads handed to \<open>onDataReceived\<close>, each with the reading of
  \<open>millis()\<close> at its arrival, its length and its content.
\<close>

fun ingest_all :: "nat \<Rightarrow> int \<Rightarrow> (uint32 \<times> int \<times> SensorData) list \<Rightarrow> hub \<Rightarrow> hub" where
  "ingest_all M sz [] w = w"
| "ingest_all M sz ((now, len, d) # ps) w = ingest_all M sz ps (onDataReceived M sz now len d w)"

text \<open>A payload that \<open>onDataReceived\<close> stores in slot \<open>i\<close>.\<close>

definition stored_in :: "nat \<Rightarrow> int \<Rightarrow> nat \<Rightarrow> (uint32 \<times> int \<times> SensorData) \<Rightarrow> bool" where
  "stored_in M sz i p =
     (case p of (now, len, d) \<Rightarrow> len = sz \<and> unat (nodeId d) = i \<and> 1 \<le> i \<and> i \<le> M)"

text \<open>
  The number of blocks of the download loop that call \<open>sendControlToNode\<close> for a
  document \<open>json\<close> and local settings \<open>s\<close>: one for each of the three settings whose
  remote value differs from the local one, and one for a recognised manual command.
\<close>

definition differing_fields :: "SettingsDoc \<Rightarrow> GreenhouseSettings \<Rightarrow> nat" where
  "differing_fields json s =
     (case doc_temperatureThreshold json of
        None \<Rightarrow> 0 | Some v \<Rightarrow> if f_neq v (temperatureThreshold s) then 1 else 0)
   + (case doc_hysteresis json of
        None \<Rightarrow> 0 | Some v \<Rightarrow> if f_neq v (hysteresis s) then 1 else 0)
   + (case doc_mode json of
        None \<Rightarrow> 0 | Some m \<Rightarrow> if (m = ''auto'') \<noteq> autoMode s then 1 else 0)
   + (case doc_manualControl json of
        None \<Rightarrow> 0 | Some c \<Rightarrow> if manualCmd_of c \<noteq> CHR 0x00 then 1 else 0)"

text \<open>
  The messages that one iteration of the download loop hands to \<open>esp_now_send\<close> for a
  node that has been heard, with the document \<open>json\<close> and the local settings \<open>s\<close> at
  the start: the messages of the four blocks, in the order of the blocks. Each message
  holds the settings as they stand when its block runs: the remote values of the fields
  before it, its own new value, and for the fields after it the local values still; the
  manual command is the local one in the first message sent, \<open>0\<close> in a later one, and the
  new command in the message of the last block.
\<close>

definition sent_for_threshold :: "nat \<Rightarrow> SettingsDoc \<Rightarrow> GreenhouseSettings \<Rightarrow> ControlMessage list" where
  "sent_for_threshold i json s =
     (case doc_temperatureThreshold json of
        None \<Rightarrow> []
      | Some v \<Rightarrow>
          if f_neq v (temperatureThreshold s)
          then [\<lparr>targetNodeId = of_nat i, tempThreshold = v,
                 msg_hysteresis = hysteresis s, msg_autoMode = autoMode s,
                 msg_manualCommand = manualCommand s\<rparr>]
          else [])"

definition sent_for_hysteresis :: "nat \<Rightarrow> SettingsDoc \<Rightarrow> GreenhouseSettings \<Rightarrow> ControlMessage list" where
  "sent_for_hysteresis i json s =
     (case doc_hysteresis json of
        None \<Rightarrow> []
      | Some h \<Rightarrow>
          if f_neq h (hysteresis s)
          then [\<lparr>targetNodeId = of_nat i,
                 tempThreshold = (case doc_temperatureThreshold json of
                                    None \<Rightarrow> temperatureThreshold s | Some v \<Rightarrow> v),
                 msg_hysteresis = h, msg_autoMode = autoMode s,
                 msg_manualCommand = (if sent_for_threshold i json s = []
                                      then manualCommand s else CHR 0x00)\<rparr>]
          else [])"

definition sent_for_mode :: "nat \<Rightarrow> SettingsDoc \<Rightarrow> GreenhouseSettings \<Rightarrow> ControlMessage list" where
  "sent_for_mode i json s =
     (case doc_mode json of
        None \<Rightarrow> []
      | Some m \<Rightarrow>
          if (m = ''auto'') \<noteq> autoMode s
          then [\<lparr>targetNodeId = of_nat i,
                 tempThreshold = (case doc_temperatureThreshold json of
                                    None \<Rightarrow> temperatureThreshold s | Some v \<Rightarrow> v),
                 msg_hysteresis = (case doc_hysteresis json of
                                     None \<Rightarrow> hysteresis s | Some h \<Rightarrow> h),
                 msg_autoMode = (m = ''auto''),
                 msg_manualCommand = (if sent_for_threshold i json s = []
                                         \<and> sent_for_hysteresis i json s = []
                                      then manualCommand s else CHR 0x00)\<rparr>]
          else [])"

definition sent_for_manualControl :: "nat \<Rightarrow> SettingsDoc \<Rightarrow> GreenhouseSettings \<Rightarrow> ControlMessage list" where
  "sent_for_manualControl i json s =
     (case doc_manualControl json of
        None \<Rightarrow> []
      | Some c \<Rightarrow>
          if manualCmd_of c \<noteq> CHR 0x00
          then [\<lparr>targetNodeId = of_nat i,
                 tempThreshold = (case doc_temperatureThreshold json of
                                    None \<Rightarrow> temperatureThreshold s | Some v \<Rightarrow> v),
                 msg_hysteresis = (case doc_hysteresis json of
                                     None \<Rightarrow> hysteresis s | Some h \<Rightarrow> h),
                 msg_autoMode = (case doc_mode json of
                                   None \<Rightarrow> autoMode s | Some m \<Rightarrow> (m = ''auto'')),
                 msg_manualCommand = manualCmd_of c\<rparr>]
          else [])"

definition pull_messages :: "nat \<Rightarrow> SettingsDoc \<Rightarrow> GreenhouseSettings \<Rightarrow> ControlMessage list" where
  "pull_messages i json s =
     sent_for_threshold i json s @ sent_for_hysteresis i json s
       @ sent_for_mode i json s @ sent_for_manualControl i json s"

text \<open>
  What the loop of \<open>sendControlToAllNodes\<close> does with a node: the test that lets the node
  through (\<open>isOnline\<close>, and the age of the last telemetry is not above 300000 ms), the
  record it leaves and the message it sends.
\<close>

definition bcast_eligible :: "uint32 \<Rightarrow> GreenhouseData \<Rightarrow> bool" where
  "bcast_eligible now g = (isOnline g \<and> now - lastSeen g \<le> 300000)"

definition bcast_slot :: "char \<Rightarrow> GreenhouseData \<Rightarrow> GreenhouseData" where
  "bcast_slot c g =
     g\<lparr>settings := (settings g)
         \<lparr>autoMode := (if c = CHR ''O'' \<or> c = CHR ''C'' then False else autoMode (settings g)),
          manualCommand := CHR 0x00\<rparr>\<rparr>"

definition bcast_msg :: "nat \<Rightarrow> char \<Rightarrow> GreenhouseData \<Rightarrow> ControlMessage" where
  "bcast_msg i c g =
     \<lparr>targetNodeId = of_nat i,
      tempThreshold = temperatureThreshold (settings g),
      msg_hysteresis = hysteresis (settings g),
      msg_autoMode = (if c = CHR ''O'' \<or> c = CHR ''C'' then False else autoMode (settings g)),
      msg_manualCommand = c\<rparr>"

text \<open>
  Every slot that has been heard holds a snapshot that carries the slot's own number.
  \<open>isOnline\<close> is set by \<open>onDataReceived\<close> only and never reset.
\<close>

definition slots_tagged :: "nat \<Rightarrow> hub \<Rightarrow> bool" where
  "slots_tagged M w =
     (\<forall>i \<in> set [1 ..< Suc M].
        isOnline (greenhouses w ! i) \<longrightarrow> unat (nodeId (sensor (greenhouses w ! i))) = i)"

text \<open>
  States for examples: one node, heard at time 0, with the settings \<open>s\<close>, and the remote
  settings document \<open>d\<close> for it; and a document without any of the four keys.
\<close>

definition example_hub :: "GreenhouseSettings \<Rightarrow> SettingsDoc \<Rightarrow> hub" where
  "example_hub s d =
     (boot_hub 1)\<lparr>greenhouses := [unseen_node, seen_node 1 s],
                  rtdb_settings := (\<lambda>i. if i = 1 then Some d else None)\<rparr>"

definition empty_doc :: SettingsDoc where
  "empty_doc = \<lparr>doc_temperatureThreshold = None, doc_hysteresis = None, doc_mode = None,
                doc_manualControl = None\<rparr>"

section \<open>Control send\<close>

lemma sendControlToNode_length [simp]:
  "length (greenhouses (sendControlToNode tx nid w)) = length (greenhouses w)"
  by (simp add: sendControlToNode_def Let_def)

text \<open>
  C1, as amended. The claim that \<open>manualCommand\<close> is \<open>0\<close> after every call fails for a
  node that is skipped: the early return leaves the record as it was (the counterexample
  follows). For every node inside the array that has been
  heard (\<open>isOnline\<close>), \<open>manualCommand\<close> is \<open>0\<close> after \<open>sendControlToNode\<close>, whatever
  \<open>esp_now_send\<close> returns.
\<close>

theorem sendControlToNode_clears_when_sent:
  assumes "unat nid < length (greenhouses w)"
    and "isOnline (greenhouses w ! unat nid)"
  shows "manualCommand (settings (greenhouses (sendControlToNode tx nid w) ! unat nid)) = CHR 0x00"
  using assms by (simp add: sendControlToNode_def Let_def)

theorem sendControlToNode_clears_when_sent_witness:
  "unat (1 :: uint8) < length (greenhouses ((boot_hub 2)\<lparr>greenhouses :=
      [unseen_node, seen_node 1 (default_settings\<lparr>manualCommand := CHR ''O''\<rparr>), unseen_node]\<rparr>))
   \<and> isOnline (greenhouses ((boot_hub 2)\<lparr>greenhouses :=
      [unseen_node, seen_node 1 (default_settings\<lparr>manualCommand := CHR ''O''\<rparr>), unseen_node]\<rparr>)
        ! unat (1 :: uint8))
   \<and> manualCommand (settings (greenhouses
     (sendControlToNode (\<lambda>k. False) 1
        ((boot_hub 2)\<lparr>greenhouses :=
           [unseen_node, seen_node 1 (default_settings\<lparr>manualCommand := CHR ''O''\<rparr>), unseen_node]\<rparr>))
     ! unat (1 :: uint8))) = CHR 0x00"
proof -
  let ?w = "(boot_hub 2)\<lparr>greenhouses :=
      [unseen_node, seen_node 1 (default_settings\<lparr>manualCommand := CHR ''O''\<rparr>), unseen_node]\<rparr>"
  have a: "unat (1 :: uint8) < length (greenhouses ?w)" by simp
  have b: "isOnline (greenhouses ?w ! unat (1 :: uint8))" by (simp add: seen_node_def)
  from a b sendControlToNode_clears_when_sent [OF a b, of "\<lambda>k. False"] show ?thesis by blast
qed

text \<open>
  C1, counterexample. Node 1 has never been heard and holds the command \<open>O\<close>; after
  \<open>sendControlToNode\<close> the command is still there.
\<close>

theorem sendControlToNode_skipped_keeps_command:
  "manualCommand (settings (greenhouses
     (sendControlToNode (\<lambda>k. True) 1
        ((boot_hub 2)\<lparr>greenhouses :=
           [unseen_node, unseen_node\<lparr>settings := default_settings\<lparr>manualCommand := CHR ''O''\<rparr>\<rparr>,
            unseen_node]\<rparr>))
     ! unat (1 :: uint8))) \<noteq> CHR 0x00"
  by (simp add: sendControlToNode_def unseen_node_def)

text \<open>
  C2, as amended. \<open>sendControlToNode\<close> looks at \<open>isOnline\<close> only and never at the age of
  the last telemetry, so a node that has timed out still gets its message (the
  counterexample follows). For a node that has never been heard
  (\<open>isOnline\<close> is false), \<open>sendControlToNode\<close> calls \<open>esp_now_send\<close> not at all and
  leaves the whole state as it was.
\<close>

theorem sendControlToNode_unseen_noop:
  assumes "\<not> isOnline (greenhouses w ! unat nid)"
  shows "sendControlToNode tx nid w = w"
  using assms by (simp add: sendControlToNode_def)

theorem sendControlToNode_unseen_noop_witness:
  "\<not> isOnline (greenhouses (boot_hub 2) ! unat (2 :: uint8))
   \<and> sendControlToNode (\<lambda>k. True) 2 (boot_hub 2) = boot_hub 2"
proof -
  have a: "\<not> isOnline (greenhouses (boot_hub 2) ! unat (2 :: uint8))"
    by (simp add: boot_hub_def unseen_node_def)
  from a sendControlToNode_unseen_noop [OF a, of "\<lambda>k. True"] show ?thesis by blast
qed

text \<open>
  C2, counterexample. Node 1 was last heard at time 0 and the time is 350000 ms, so the
  node is not live; \<open>sendControlToNode\<close> hands one message to \<open>esp_now_send\<close>.
\<close>

theorem sendControlToNode_stale_node_sends:
  "\<not> isLive 350000 (seen_node 1 default_settings) \<and>
   radio (sendControlToNode (\<lambda>k. True) 1
            ((boot_hub 2)\<lparr>greenhouses := [unseen_node, seen_node 1 default_settings, unseen_node]\<rparr>))
     = [(\<lparr>targetNodeId = 1, tempThreshold = Fin 25, msg_hysteresis = Fin (1/2),
          msg_autoMode = True, msg_manualCommand = CHR 0x00\<rparr>, True)]"
  by (simp add: sendControlToNode_def isLive_def seen_node_def boot_hub_def default_settings_def)

section \<open>Bulk command\<close>

lemma unat_of_nat_uint8: "i < 256 \<Longrightarrow> unat (of_nat i :: uint8) = i"
  by (simp add: unsigned_of_nat take_bit_nat_eq_self)

lemma controlAll_body_greenhouses:
  assumes "i < length (greenhouses w)" and "i < 256"
  shows "greenhouses (controlAll_body tx now c i w) =
     (if bcast_eligible now (greenhouses w ! i)
      then (greenhouses w)[i := bcast_slot c (greenhouses w ! i)] else greenhouses w)"
  using assms
  by (auto simp: controlAll_body_def sendControlToNode_def Let_def bcast_eligible_def
        bcast_slot_def unat_of_nat_uint8 not_less)

lemma controlAll_body_radio:
  assumes "i < length (greenhouses w)" and "i < 256"
  shows "map fst (radio (controlAll_body tx now c i w)) =
     map fst (radio w) @
       (if bcast_eligible now (greenhouses w ! i) then [bcast_msg i c (greenhouses w ! i)] else [])"
  using assms
  by (auto simp: controlAll_body_def sendControlToNode_def Let_def bcast_eligible_def
        bcast_msg_def unat_of_nat_uint8 not_less)

lemma controlAll_body_length [simp]:
  "length (greenhouses (controlAll_body tx now c i w)) = length (greenhouses w)"
  by (simp add: controlAll_body_def Let_def)

lemma controlAll_body_other:
  assumes "i < length (greenhouses w)" and "i < 256" and "j \<noteq> i"
  shows "greenhouses (controlAll_body tx now c i w) ! j = greenhouses w ! j"
  using assms by (simp add: controlAll_body_greenhouses)

lemma controlAll_loop_length [simp]:
  "length (greenhouses (fold (\<lambda>i. controlAll_body tx (ms i) c i) js w)) = length (greenhouses w)"
  by (induction js arbitrary: w) simp_all

lemma controlAll_loop_slot:
  assumes "\<forall>i \<in> set js. i < length (greenhouses w) \<and> i < 256" and "distinct js"
    and "j < length (greenhouses w)"
  shows "greenhouses (fold (\<lambda>i. controlAll_body tx (ms i) c i) js w) ! j =
     (if j \<in> set js \<and> bcast_eligible (ms j) (greenhouses w ! j)
      then bcast_slot c (greenhouses w ! j) else greenhouses w ! j)"
  using assms
proof (induction js arbitrary: w)
  case Nil
  then show ?case by simp
next
  case (Cons a js)
  let ?w1 = "controlAll_body tx (ms a) c a w"
  have a: "a < length (greenhouses w)" "a < 256" "a \<notin> set js" using Cons.prems by auto
  have ih: "greenhouses (fold (\<lambda>i. controlAll_body tx (ms i) c i) js ?w1) ! j =
     (if j \<in> set js \<and> bcast_eligible (ms j) (greenhouses ?w1 ! j)
      then bcast_slot c (greenhouses ?w1 ! j) else greenhouses ?w1 ! j)"
    by (rule Cons.IH) (use Cons.prems in auto)
  show ?case
  proof (cases "j = a")
    case True
    with a ih show ?thesis
      using Cons.prems(3) by (simp add: controlAll_body_greenhouses)
  next
    case False
    with a have "greenhouses ?w1 ! j = greenhouses w ! j"
      by (simp add: controlAll_body_other)
    with ih False show ?thesis by simp
  qed
qed

lemma controlAll_loop_radio:
  assumes "\<forall>i \<in> set js. i < length (greenhouses w) \<and> i < 256" and "distinct js"
  shows "map fst (radio (fold (\<lambda>i. controlAll_body tx (ms i) c i) js w)) =
     map fst (radio w) @
       concat (map (\<lambda>i. if bcast_eligible (ms i) (greenhouses w ! i)
                         then [bcast_msg i c (greenhouses w ! i)] else []) js)"
  using assms
proof (induction js arbitrary: w)
  case Nil
  then show ?case by simp
next
  case (Cons a js)
  let ?w1 = "controlAll_body tx (ms a) c a w"
  have a: "a < length (greenhouses w)" "a < 256" "a \<notin> set js" using Cons.prems by auto
  have ih: "map fst (radio (fold (\<lambda>i. controlAll_body tx (ms i) c i) js ?w1)) =
     map fst (radio ?w1) @
       concat (map (\<lambda>i. if bcast_eligible (ms i) (greenhouses ?w1 ! i)
                         then [bcast_msg i c (greenhouses ?w1 ! i)] else []) js)"
    by (rule Cons.IH) (use Cons.prems in auto)
  have same: "map (\<lambda>i. if bcast_eligible (ms i) (greenhouses ?w1 ! i)
                         then [bcast_msg i c (greenhouses ?w1 ! i)] else []) js
      = map (\<lambda>i. if bcast_eligible (ms i) (greenhouses w ! i)
                         then [bcast_msg i c (greenhouses w ! i)] else []) js"
  proof (rule map_cong [OF refl])
    fix k assume "k \<in> set js"
    with a have "k \<noteq> a" by auto
    with a have "greenhouses ?w1 ! k = greenhouses w ! k" by (simp add: controlAll_body_other)
    then show "(if bcast_eligible (ms k) (greenhouses ?w1 ! k)
                 then [bcast_msg k c (greenhouses ?w1 ! k)] else [])
             = (if bcast_eligible (ms k) (greenhouses w ! k)
                 then [bcast_msg k c (greenhouses w ! k)] else [])" by simp
  qed
  show ?case
    using ih a by (simp add: same controlAll_body_radio)
qed

lemma sendControlToAllNodes_greenhouses:
  "greenhouses (sendControlToAllNodes M tx ms cr c w)
     = greenhouses (fold (\<lambda>i. controlAll_body tx (ms i) c i) [1 ..< Suc M] w)"
  "radio (sendControlToAllNodes M tx ms cr c w)
     = radio (fold (\<lambda>i. controlAll_body tx (ms i) c i) [1 ..< Suc M] w)"
  by (simp_all add: sendControlToAllNodes_def Let_def del: upt_Suc)

lemma sendControlToAllNodes_nodes:
  assumes "length (greenhouses w) = Suc M" and "M < 256" and "1 \<le> i" and "i \<le> M"
  shows "greenhouses (sendControlToAllNodes M tx ms cr c w) ! i =
     (if bcast_eligible (ms i) (greenhouses w ! i)
      then bcast_slot c (greenhouses w ! i) else greenhouses w ! i)"
    and "map fst (radio (sendControlToAllNodes M tx ms cr c w)) =
     map fst (radio w) @
       concat (map (\<lambda>i. if bcast_eligible (ms i) (greenhouses w ! i)
                         then [bcast_msg i c (greenhouses w ! i)] else []) [1 ..< Suc M])"
proof -
  have r: "\<forall>k \<in> set [1 ..< Suc M]. k < length (greenhouses w) \<and> k < 256"
    using assms by auto
  show "greenhouses (sendControlToAllNodes M tx ms cr c w) ! i =
     (if bcast_eligible (ms i) (greenhouses w ! i)
      then bcast_slot c (greenhouses w ! i) else greenhouses w ! i)"
    unfolding sendControlToAllNodes_greenhouses
    using controlAll_loop_slot [OF r distinct_upt, of i tx ms c] assms by simp
  show "map fst (radio (sendControlToAllNodes M tx ms cr c w)) =
     map fst (radio w) @
       concat (map (\<lambda>i. if bcast_eligible (ms i) (greenhouses w ! i)
                         then [bcast_msg i c (greenhouses w ! i)] else []) [1 ..< Suc M])"
    unfolding sendControlToAllNodes_greenhouses
    by (rule controlAll_loop_radio [OF r distinct_upt])
qed

text \<open>
  C6, the failing input. Node 3 was heard at time 0 and every reading of \<open>millis()\<close> is
  300000, so the node is not live by the test of the upload loop (\<open>isLive\<close>). The loop of
  \<open>sendControlToAllNodes\<close> skips a node only when the age is above 300000: it sends the
  command \<open>O\<close> to node 3 and switches its \<open>autoMode\<close> off.
\<close>

theorem broadcast_at_300000:
  "\<not> isLive 300000 (seen_node 3 default_settings) \<and>
   radio (sendControlToAllNodes 3 (\<lambda>k. True) (\<lambda>i. 300000) False (CHR ''O'')
            ((boot_hub 3)\<lparr>greenhouses :=
                [unseen_node, unseen_node, unseen_node, seen_node 3 default_settings]\<rparr>))
     = [(\<lparr>targetNodeId = 3, tempThreshold = Fin 25, msg_hysteresis = Fin (1/2),
          msg_autoMode = False, msg_manualCommand = CHR ''O''\<rparr>, True)]
   \<and> autoMode (settings (greenhouses
        (sendControlToAllNodes 3 (\<lambda>k. True) (\<lambda>i. 300000) False (CHR ''O'')
            ((boot_hub 3)\<lparr>greenhouses :=
                [unseen_node, unseen_node, unseen_node, seen_node 3 default_settings]\<rparr>)) ! 3))
     = False"
  by (simp add: sendControlToAllNodes_def controlAll_body_def sendControlToNode_def isLive_def
        seen_node_def unseen_node_def boot_hub_def default_settings_def Let_def upt_rec)

text \<open>
  At 350000 ms the same node is skipped and nothing changes.
\<close>

lemma broadcast_at_350000:
  "sendControlToAllNodes 3 (\<lambda>k. True) (\<lambda>i. 350000) False (CHR ''O'')
            ((boot_hub 3)\<lparr>greenhouses :=
                [unseen_node, unseen_node, unseen_node, seen_node 3 default_settings]\<rparr>)
   = (boot_hub 3)\<lparr>greenhouses :=
                [unseen_node, unseen_node, unseen_node, seen_node 3 default_settings]\<rparr>"
  by (simp add: sendControlToAllNodes_def controlAll_body_def sendControlToNode_def isLive_def
        seen_node_def unseen_node_def boot_hub_def default_settings_def Let_def upt_rec)

lemma controlAll_body_lastControlAll [simp]:
  "rtdb_lastControlAll (controlAll_body tx now c i w) = rtdb_lastControlAll w"
  by (simp add: controlAll_body_def sendControlToNode_def Let_def)

lemma controlAll_loop_lastControlAll:
  "rtdb_lastControlAll (fold (\<lambda>i. controlAll_body tx (ms i) c i) js w) = rtdb_lastControlAll w"
  by (induction js arbitrary: w) simp_all

text \<open>
  C10. When the hub is connected, \<open>sendControlToAllNodes\<close> writes the remote record
  \<open>/system/lastControlAll\<close> with the action \<open>open\<close> exactly when the command is \<open>O\<close>
  and \<open>close\<close> for every other command, so \<open>close\<close> for the command \<open>S\<close>; when it is
  not connected the record is left alone.
\<close>

theorem lastControlAll_action:
  "rtdb_lastControlAll (sendControlToAllNodes M tx ms True command w)
     = Some (if command = CHR ''O'' then ''open'' else ''close'', ms (Suc M))
   \<and> rtdb_lastControlAll (sendControlToAllNodes M tx ms True (CHR ''S'') w)
     = Some (''close'', ms (Suc M))
   \<and> rtdb_lastControlAll (sendControlToAllNodes M tx ms False command w)
     = rtdb_lastControlAll w"
  by (simp add: sendControlToAllNodes_def Let_def controlAll_loop_lastControlAll)

theorem lastControlAll_action_witness:
  "rtdb_lastControlAll
      (sendControlToAllNodes 2 (\<lambda>k. True) (\<lambda>i. 1000) True (CHR ''S'') (boot_hub 2))
     = Some (''close'', 1000)"
  using lastControlAll_action [of 2 "\<lambda>k. True" "\<lambda>i. 1000" "CHR ''S''" "boot_hub 2"] by simp

section \<open>Loading the settings\<close>

lemma validate_threshold:
  "temperatureThreshold (validate_settings s) =
     (if finite_within 0 50 (temperatureThreshold s) then temperatureThreshold s else Fin 25)"
  by (cases "temperatureThreshold s") (auto simp: validate_settings_def Let_def f_greater_def)

lemma validate_hysteresis:
  "hysteresis (validate_settings s) =
     (if finite_within 0 5 (hysteresis s) then hysteresis s else Fin (1/2))"
  by (cases "hysteresis s") (auto simp: validate_settings_def Let_def f_greater_def)

lemma validate_rest:
  "autoMode (validate_settings s) = autoMode s"
  "manualCommand (validate_settings s) = manualCommand s"
  "schedule (validate_settings s) = schedule s"
  by (simp_all add: validate_settings_def Let_def)

lemma load_body_simps [simp]:
  "length (greenhouses (load_body i w)) = length (greenhouses w)"
  "eeprom (load_body i w) = eeprom w"
  by (simp_all add: load_body_def)

lemma load_loop_length [simp]:
  "length (greenhouses (fold load_body js w)) = length (greenhouses w)"
  by (induction js arbitrary: w) simp_all

lemma load_loop_eeprom [simp]:
  "eeprom (fold load_body js w) = eeprom w"
  by (induction js arbitrary: w) simp_all

lemma load_loop_settings:
  assumes "j < length (greenhouses w)"
  shows "settings (greenhouses (fold load_body js w) ! j)
   = (if j \<in> set js then validate_settings (eeprom w (j - 1)) else settings (greenhouses w ! j))"
  using assms
proof (induction js arbitrary: w)
  case Nil
  then show ?case by simp
next
  case (Cons a js)
  have len: "j < length (greenhouses (load_body a w))" using Cons.prems by simp
  show ?case
    using Cons.IH [OF len] Cons.prems
    by (auto simp: load_body_def nth_list_update)
qed

lemma loadSettings_slot:
  assumes "length (greenhouses w) = Suc M" and "1 \<le> i" and "i \<le> M"
  shows "settings (greenhouses (loadSettingsFromEEPROM M w) ! i) = validate_settings (eeprom w (i - 1))"
  using assms unfolding loadSettingsFromEEPROM_def by (simp add: load_loop_settings del: upt_Suc)

text \<open>
  C7. After \<open>loadSettingsFromEEPROM\<close>, for every slot \<open>i\<close> from 1 to
  \<open>MAX_GREENHOUSES\<close>, the threshold is finite and in \<open>[0,50]\<close> and the hysteresis is
  finite and in \<open>[0,5]\<close>: a stored value that is finite and in range is returned as it is,
  any other stored threshold becomes 25.0 and any other stored hysteresis 0.5.
\<close>

theorem loadSettings_validated:
  assumes "length (greenhouses w) = Suc M" and "1 \<le> i" and "i \<le> M"
  shows "finite_within 0 50 (temperatureThreshold (settings (greenhouses (loadSettingsFromEEPROM M w) ! i)))
    \<and> finite_within 0 5 (hysteresis (settings (greenhouses (loadSettingsFromEEPROM M w) ! i)))
    \<and> temperatureThreshold (settings (greenhouses (loadSettingsFromEEPROM M w) ! i))
        = (if finite_within 0 50 (temperatureThreshold (eeprom w (i - 1)))
           then temperatureThreshold (eeprom w (i - 1)) else Fin 25)
    \<and> hysteresis (settings (greenhouses (loadSettingsFromEEPROM M w) ! i))
        = (if finite_within 0 5 (hysteresis (eeprom w (i - 1)))
           then hysteresis (eeprom w (i - 1)) else Fin (1/2))"
  using assms by (simp add: loadSettings_slot validate_threshold validate_hysteresis)

theorem loadSettings_validated_witness:
  "length (greenhouses ((boot_hub 2)\<lparr>eeprom := (\<lambda>k. default_settings
       \<lparr>temperatureThreshold := (if k = 0 then Fin 999 else NaN), hysteresis := Fin (- 1)\<rparr>)\<rparr>)) = Suc 2
   \<and> temperatureThreshold (settings (greenhouses (loadSettingsFromEEPROM 2
       ((boot_hub 2)\<lparr>eeprom := (\<lambda>k. default_settings
          \<lparr>temperatureThreshold := (if k = 0 then Fin 999 else NaN), hysteresis := Fin (- 1)\<rparr>)\<rparr>)) ! 1))
      = Fin 25
   \<and> temperatureThreshold (settings (greenhouses (loadSettingsFromEEPROM 2
       ((boot_hub 2)\<lparr>eeprom := (\<lambda>k. default_settings
          \<lparr>temperatureThreshold := (if k = 0 then Fin 999 else NaN), hysteresis := Fin (- 1)\<rparr>)\<rparr>)) ! 2))
      = Fin 25
   \<and> hysteresis (settings (greenhouses (loadSettingsFromEEPROM 2
       ((boot_hub 2)\<lparr>eeprom := (\<lambda>k. default_settings
          \<lparr>temperatureThreshold := (if k = 0 then Fin 999 else NaN), hysteresis := Fin (- 1)\<rparr>)\<rparr>)) ! 1))
      = Fin (1/2)"
proof -
  let ?w = "(boot_hub 2)\<lparr>eeprom := (\<lambda>k. default_settings
       \<lparr>temperatureThreshold := (if k = 0 then Fin 999 else NaN), hysteresis := Fin (- 1)\<rparr>)\<rparr>"
  have len: "length (greenhouses ?w) = Suc 2" by (simp add: boot_hub_def)
  from loadSettings_validated [OF len, of 1] loadSettings_validated [OF len, of 2] len
  show ?thesis by simp
qed

section \<open>Telemetry ingestion\<close>

lemma onDataReceived_length [simp]:
  "length (greenhouses (onDataReceived M sz now len d w)) = length (greenhouses w)"
  by (simp add: onDataReceived_def Let_def)

lemma onDataReceived_other:
  "j \<noteq> unat (nodeId d) \<Longrightarrow>
   greenhouses (onDataReceived M sz now len d w) ! j = greenhouses w ! j"
  by (simp add: onDataReceived_def Let_def)

lemma onDataReceived_rest:
  "radio (onDataReceived M sz now len d w) = radio w"
  "eeprom (onDataReceived M sz now len d w) = eeprom w"
  "rtdb_settings (onDataReceived M sz now len d w) = rtdb_settings w"
  "rtdb_lastControlAll (onDataReceived M sz now len d w) = rtdb_lastControlAll w"
  by (simp_all add: onDataReceived_def Let_def)

lemma onDataReceived_stored:
  assumes "length (greenhouses w) = Suc M" and "stored_in M sz i (now, len, d)"
  shows "sensor (greenhouses (onDataReceived M sz now len d w) ! i) = d"
    and "isOnline (greenhouses (onDataReceived M sz now len d w) ! i)"
    and "lastSeen (greenhouses (onDataReceived M sz now len d w) ! i) = now"
  using assms by (auto simp: onDataReceived_def stored_in_def Let_def)

lemma slots_tagged_iff:
  "slots_tagged M w =
     (\<forall>i. 1 \<le> i \<and> i \<le> M \<and> isOnline (greenhouses w ! i)
          \<longrightarrow> unat (nodeId (sensor (greenhouses w ! i))) = i)"
  by (auto simp: slots_tagged_def)

lemma onDataReceived_tagged:
  assumes "length (greenhouses w) = Suc M" and "slots_tagged M w"
  shows "slots_tagged M (onDataReceived M sz now len d w)"
  unfolding slots_tagged_iff
proof (intro allI impI)
  fix i
  assume h: "1 \<le> i \<and> i \<le> M \<and> isOnline (greenhouses (onDataReceived M sz now len d w) ! i)"
  show "unat (nodeId (sensor (greenhouses (onDataReceived M sz now len d w) ! i))) = i"
  proof (cases "stored_in M sz i (now, len, d)")
    case True
    then show ?thesis
      using onDataReceived_stored(1) [OF assms(1) True] by (simp add: stored_in_def)
  next
    case False
    have same: "greenhouses (onDataReceived M sz now len d w) ! i = greenhouses w ! i"
    proof (cases "i = unat (nodeId d)")
      case True
      with False h have "onDataReceived M sz now len d w = w"
        by (auto simp: onDataReceived_def stored_in_def Let_def)
      then show ?thesis by simp
    next
      case False
      then show ?thesis by (rule onDataReceived_other)
    qed
    with h assms(2) show ?thesis by (simp add: slots_tagged_iff)
  qed
qed

lemma ingest_all_length [simp]:
  "length (greenhouses (ingest_all M sz ps w)) = length (greenhouses w)"
  by (induction ps arbitrary: w) auto

lemma onDataReceived_nodeId_kept:
  assumes "length (greenhouses w) = Suc M" and "1 \<le> i" and "i \<le> M"
    and "unat (nodeId (sensor (greenhouses w ! i))) = i"
  shows "unat (nodeId (sensor (greenhouses (onDataReceived M sz now len d w) ! i))) = i"
proof (cases "stored_in M sz i (now, len, d)")
  case True
  then show ?thesis
    using onDataReceived_stored(1) [OF assms(1) True] by (simp add: stored_in_def)
next
  case False
  have "greenhouses (onDataReceived M sz now len d w) ! i = greenhouses w ! i"
  proof (cases "i = unat (nodeId d)")
    case True
    with False assms have "onDataReceived M sz now len d w = w"
      by (auto simp: onDataReceived_def stored_in_def Let_def)
    then show ?thesis by simp
  next
    case False
    then show ?thesis by (rule onDataReceived_other)
  qed
  with assms(4) show ?thesis by simp
qed

lemma ingest_all_nodeId_kept:
  assumes "length (greenhouses w) = Suc M" and "1 \<le> i" and "i \<le> M"
    and "unat (nodeId (sensor (greenhouses w ! i))) = i"
  shows "unat (nodeId (sensor (greenhouses (ingest_all M sz ps w) ! i))) = i"
  using assms
proof (induction ps arbitrary: w)
  case Nil
  then show ?case by simp
next
  case (Cons p ps)
  obtain now len d where p: "p = (now, len, d)" by (cases p) auto
  show ?case
    unfolding p ingest_all.simps
    by (rule Cons.IH) (use Cons.prems in \<open>simp_all add: onDataReceived_nodeId_kept\<close>)
qed

lemma ingest_all_tagged:
  assumes "length (greenhouses w) = Suc M" and "\<exists>p \<in> set ps. stored_in M sz i p"
  shows "unat (nodeId (sensor (greenhouses (ingest_all M sz ps w) ! i))) = i"
  using assms
proof (induction ps arbitrary: w)
  case Nil
  then show ?case by simp
next
  case (Cons p ps)
  obtain now len d where p: "p = (now, len, d)" by (cases p) auto
  have len: "length (greenhouses (onDataReceived M sz now len d w)) = Suc M"
    using Cons.prems(1) by simp
  show ?case
  proof (cases "stored_in M sz i p")
    case True
    then have r: "1 \<le> i" "i \<le> M" by (auto simp: stored_in_def p)
    have "unat (nodeId (sensor (greenhouses (onDataReceived M sz now len d w) ! i))) = i"
      using onDataReceived_stored(1) [OF Cons.prems(1) True [unfolded p]] True
      by (simp add: stored_in_def p)
    then show ?thesis
      unfolding p ingest_all.simps
      using len r by (intro ingest_all_nodeId_kept)
  next
    case False
    with Cons.prems(2) have "\<exists>p \<in> set ps. stored_in M sz i p" by auto
    then show ?thesis
      unfolding p ingest_all.simps using len by (intro Cons.IH)
  qed
qed

text \<open>
  C9. \<open>onDataReceived\<close> writes only the slot whose number the payload carries: every
  other slot is as before; the property that every heard slot holds a snapshot with its
  own number is kept by every call; and after any sequence of payloads, from any state,
  every slot that one of them was stored in holds a snapshot with the slot's number.
\<close>

theorem ingestion_writes_own_slot:
  assumes "length (greenhouses w) = Suc M"
  shows "(\<forall>j. j \<noteq> unat (nodeId d) \<longrightarrow>
            greenhouses (onDataReceived M sz now len d w) ! j = greenhouses w ! j)
    \<and> (slots_tagged M w \<longrightarrow> slots_tagged M (onDataReceived M sz now len d w))
    \<and> (\<forall>i. (\<exists>p \<in> set ps. stored_in M sz i p) \<longrightarrow>
            unat (nodeId (sensor (greenhouses (ingest_all M sz ps w) ! i))) = i)"
  using assms onDataReceived_other onDataReceived_tagged ingest_all_tagged by blast

theorem ingestion_writes_own_slot_witness:
  "length (greenhouses (boot_hub 2)) = Suc 2
   \<and> slots_tagged 2 (boot_hub 2)
   \<and> slots_tagged 2 (onDataReceived 2 20 7 20 (zero_sensor\<lparr>nodeId := 2\<rparr>) (boot_hub 2))
   \<and> greenhouses (onDataReceived 2 20 7 20 (zero_sensor\<lparr>nodeId := 2\<rparr>) (boot_hub 2)) ! 1
       = greenhouses (boot_hub 2) ! 1
   \<and> unat (nodeId (sensor (greenhouses
         (ingest_all 2 20 [(7, 20, zero_sensor\<lparr>nodeId := 2\<rparr>), (9, 20, zero_sensor\<lparr>nodeId := 1\<rparr>)]
            (boot_hub 2)) ! 2))) = 2"
proof -
  let ?d = "zero_sensor\<lparr>nodeId := 2\<rparr>"
  let ?ps = "[(7, 20, ?d), (9, 20, zero_sensor\<lparr>nodeId := 1\<rparr>)] :: (uint32 \<times> int \<times> SensorData) list"
  have len: "length (greenhouses (boot_hub 2)) = Suc 2" by (simp add: boot_hub_def)
  have tag: "slots_tagged 2 (boot_hub 2)"
    by (simp add: slots_tagged_def boot_hub_def unseen_node_def)
  have st: "\<exists>p \<in> set ?ps. stored_in 2 20 2 p" by (simp add: stored_in_def)
  have ne: "(1::nat) \<noteq> unat (nodeId ?d)" by simp
  from ingestion_writes_own_slot [OF len, of ?d 20 7 20 ?ps] len tag st ne
  show ?thesis by blast
qed

section \<open>The download loop\<close>

lemma send_upd_radio:
  assumes "i < length (greenhouses w)" and "i < 256"
  shows "radio (sendControlToNode tx (of_nat i) (upd_settings i f w)) =
     radio w @
       (if isOnline (greenhouses w ! i)
        then [(\<lparr>targetNodeId = of_nat i,
                tempThreshold = temperatureThreshold (f (settings (greenhouses w ! i))),
                msg_hysteresis = hysteresis (f (settings (greenhouses w ! i))),
                msg_autoMode = autoMode (f (settings (greenhouses w ! i))),
                msg_manualCommand = manualCommand (f (settings (greenhouses w ! i)))\<rparr>,
               tx (length (radio w)))]
        else [])"
  using assms by (simp add: sendControlToNode_def upd_settings_def Let_def unat_of_nat_uint8)

lemma send_upd_settings:
  assumes "i < length (greenhouses w)" and "i < 256"
  shows "settings (greenhouses (sendControlToNode tx (of_nat i) (upd_settings i f w)) ! i) =
     (if isOnline (greenhouses w ! i)
      then (f (settings (greenhouses w ! i)))\<lparr>manualCommand := CHR 0x00\<rparr>
      else f (settings (greenhouses w ! i)))"
  using assms by (simp add: sendControlToNode_def upd_settings_def Let_def unat_of_nat_uint8)

lemma send_upd_isOnline:
  assumes "i < length (greenhouses w)" and "i < 256"
  shows "isOnline (greenhouses (sendControlToNode tx (of_nat i) (upd_settings i f w)) ! j) =
         isOnline (greenhouses w ! j)"
  using assms
  by (cases "j = i") (simp_all add: sendControlToNode_def upd_settings_def Let_def unat_of_nat_uint8)

lemma send_upd_other:
  assumes "i < length (greenhouses w)" and "i < 256" and "j \<noteq> i"
  shows "greenhouses (sendControlToNode tx (of_nat i) (upd_settings i f w)) ! j = greenhouses w ! j"
  using assms by (simp add: sendControlToNode_def upd_settings_def Let_def unat_of_nat_uint8)

lemma upd_settings_rest [simp]:
  "length (greenhouses (upd_settings i f w)) = length (greenhouses w)"
  "radio (upd_settings i f w) = radio w"
  "rtdb_settings (upd_settings i f w) = rtdb_settings w"
  "eeprom (upd_settings i f w) = eeprom w"
  by (simp_all add: upd_settings_def)

lemma sendControlToNode_rest [simp]:
  "rtdb_settings (sendControlToNode tx n w) = rtdb_settings w"
  "eeprom (sendControlToNode tx n w) = eeprom w"
  by (simp_all add: sendControlToNode_def Let_def)

lemma f_neq_same: "\<not> f_neq x y \<Longrightarrow> y = x"
  by (auto simp: f_neq_def)

lemma f_neq_refl: "\<not> isnan x \<Longrightarrow> \<not> f_neq x x"
  by (simp add: f_neq_def)

subsection \<open>The block for \<open>temperatureThreshold\<close>\<close>

lemma pull_threshold_rest [simp]:
  "length (greenhouses (pull_threshold tx i json w)) = length (greenhouses w)"
  "rtdb_settings (pull_threshold tx i json w) = rtdb_settings w"
  by (simp_all add: pull_threshold_def split: option.splits)

lemma pull_threshold_isOnline:
  assumes "i < length (greenhouses w)" and "i < 256"
  shows "isOnline (greenhouses (pull_threshold tx i json w) ! i) = isOnline (greenhouses w ! i)"
  using assms by (simp add: pull_threshold_def send_upd_isOnline split: option.splits)

lemma pull_threshold_fields:
  assumes "i < length (greenhouses w)" and "i < 256"
  shows "temperatureThreshold (settings (greenhouses (pull_threshold tx i json w) ! i)) =
           (case doc_temperatureThreshold json of
              None \<Rightarrow> temperatureThreshold (settings (greenhouses w ! i)) | Some v \<Rightarrow> v)"
    and "hysteresis (settings (greenhouses (pull_threshold tx i json w) ! i)) =
           hysteresis (settings (greenhouses w ! i))"
    and "autoMode (settings (greenhouses (pull_threshold tx i json w) ! i)) =
           autoMode (settings (greenhouses w ! i))"
  using assms
  by (auto simp: pull_threshold_def send_upd_settings f_neq_same split: option.splits)

lemma pull_threshold_radio:
  assumes "i < length (greenhouses w)" and "i < 256"
  shows "radio (pull_threshold tx i json w) =
     radio w @
       (case doc_temperatureThreshold json of
          None \<Rightarrow> []
        | Some v \<Rightarrow>
            if isOnline (greenhouses w ! i)
               \<and> f_neq v (temperatureThreshold (settings (greenhouses w ! i)))
            then [(\<lparr>targetNodeId = of_nat i, tempThreshold = v,
                    msg_hysteresis = hysteresis (settings (greenhouses w ! i)),
                    msg_autoMode = autoMode (settings (greenhouses w ! i)),
                    msg_manualCommand = manualCommand (settings (greenhouses w ! i))\<rparr>,
                   tx (length (radio w)))]
            else [])"
  using assms by (simp add: pull_threshold_def send_upd_radio split: option.splits)

subsection \<open>The block for \<open>hysteresis\<close>\<close>

lemma pull_hysteresis_rest [simp]:
  "length (greenhouses (pull_hysteresis tx i json w)) = length (greenhouses w)"
  "rtdb_settings (pull_hysteresis tx i json w) = rtdb_settings w"
  by (simp_all add: pull_hysteresis_def split: option.splits)

lemma pull_hysteresis_isOnline:
  assumes "i < length (greenhouses w)" and "i < 256"
  shows "isOnline (greenhouses (pull_hysteresis tx i json w) ! i) = isOnline (greenhouses w ! i)"
  using assms by (simp add: pull_hysteresis_def send_upd_isOnline split: option.splits)

lemma pull_hysteresis_fields:
  assumes "i < length (greenhouses w)" and "i < 256"
  shows "temperatureThreshold (settings (greenhouses (pull_hysteresis tx i json w) ! i)) =
           temperatureThreshold (settings (greenhouses w ! i))"
    and "hysteresis (settings (greenhouses (pull_hysteresis tx i json w) ! i)) =
           (case doc_hysteresis json of
              None \<Rightarrow> hysteresis (settings (greenhouses w ! i)) | Some v \<Rightarrow> v)"
    and "autoMode (settings (greenhouses (pull_hysteresis tx i json w) ! i)) =
           autoMode (settings (greenhouses w ! i))"
  using assms
  by (auto simp: pull_hysteresis_def send_upd_settings f_neq_same split: option.splits)

lemma pull_hysteresis_radio:
  assumes "i < length (greenhouses w)" and "i < 256"
  shows "radio (pull_hysteresis tx i json w) =
     radio w @
       (case doc_hysteresis json of
          None \<Rightarrow> []
        | Some v \<Rightarrow>
            if isOnline (greenhouses w ! i)
               \<and> f_neq v (hysteresis (settings (greenhouses w ! i)))
            then [(\<lparr>targetNodeId = of_nat i,
                    tempThreshold = temperatureThreshold (settings (greenhouses w ! i)),
                    msg_hysteresis = v,
                    msg_autoMode = autoMode (settings (greenhouses w ! i)),
                    msg_manualCommand = manualCommand (settings (greenhouses w ! i))\<rparr>,
                   tx (length (radio w)))]
            else [])"
  using assms by (simp add: pull_hysteresis_def send_upd_radio split: option.splits)

subsection \<open>The block for \<open>mode\<close>\<close>

lemma pull_mode_rest [simp]:
  "length (greenhouses (pull_mode tx i json w)) = length (greenhouses w)"
  "rtdb_settings (pull_mode tx i json w) = rtdb_settings w"
  by (simp_all add: pull_mode_def Let_def split: option.splits)

lemma pull_mode_isOnline:
  assumes "i < length (greenhouses w)" and "i < 256"
  shows "isOnline (greenhouses (pull_mode tx i json w) ! i) = isOnline (greenhouses w ! i)"
  using assms by (simp add: pull_mode_def Let_def send_upd_isOnline split: option.splits)

lemma pull_mode_fields:
  assumes "i < length (greenhouses w)" and "i < 256"
  shows "temperatureThreshold (settings (greenhouses (pull_mode tx i json w) ! i)) =
           temperatureThreshold (settings (greenhouses w ! i))"
    and "hysteresis (settings (greenhouses (pull_mode tx i json w) ! i)) =
           hysteresis (settings (greenhouses w ! i))"
    and "autoMode (settings (greenhouses (pull_mode tx i json w) ! i)) =
           (case doc_mode json of
              None \<Rightarrow> autoMode (settings (greenhouses w ! i)) | Some m \<Rightarrow> (m = ''auto''))"
  using assms
  by (auto simp: pull_mode_def Let_def send_upd_settings split: option.splits)

lemma pull_mode_radio:
  assumes "i < length (greenhouses w)" and "i < 256"
  shows "radio (pull_mode tx i json w) =
     radio w @
       (case doc_mode json of
          None \<Rightarrow> []
        | Some m \<Rightarrow>
            if isOnline (greenhouses w ! i)
               \<and> (m = ''auto'') \<noteq> autoMode (settings (greenhouses w ! i))
            then [(\<lparr>targetNodeId = of_nat i,
                    tempThreshold = temperatureThreshold (settings (greenhouses w ! i)),
                    msg_hysteresis = hysteresis (settings (greenhouses w ! i)),
                    msg_autoMode = (m = ''auto''),
                    msg_manualCommand = manualCommand (settings (greenhouses w ! i))\<rparr>,
                   tx (length (radio w)))]
            else [])"
  using assms by (simp add: pull_mode_def Let_def send_upd_radio split: option.splits)

subsection \<open>The block for \<open>manualControl\<close>\<close>

lemma clear_manualControl_rest [simp]:
  "greenhouses (clear_manualControl i w) = greenhouses w"
  "radio (clear_manualControl i w) = radio w"
  "eeprom (clear_manualControl i w) = eeprom w"
  by (simp_all add: clear_manualControl_def)

lemma pull_manualControl_rest [simp]:
  "length (greenhouses (pull_manualControl tx i json w)) = length (greenhouses w)"
  by (simp_all add: pull_manualControl_def Let_def split: option.splits)

lemma pull_manualControl_rtdb:
  "rtdb_settings (pull_manualControl tx i json w) =
     (case doc_manualControl json of
        None \<Rightarrow> rtdb_settings w
      | Some c \<Rightarrow>
          if manualCmd_of c \<noteq> CHR 0x00
          then (rtdb_settings w)
                 (i := map_option (\<lambda>d. d\<lparr>doc_manualControl := None\<rparr>) (rtdb_settings w i))
          else rtdb_settings w)"
  by (simp add: pull_manualControl_def Let_def clear_manualControl_def split: option.splits)

lemma pull_manualControl_isOnline:
  assumes "i < length (greenhouses w)" and "i < 256"
  shows "isOnline (greenhouses (pull_manualControl tx i json w) ! i) = isOnline (greenhouses w ! i)"
  using assms by (simp add: pull_manualControl_def Let_def send_upd_isOnline split: option.splits)

lemma pull_manualControl_fields:
  assumes "i < length (greenhouses w)" and "i < 256"
  shows "temperatureThreshold (settings (greenhouses (pull_manualControl tx i json w) ! i)) =
           temperatureThreshold (settings (greenhouses w ! i))"
    and "hysteresis (settings (greenhouses (pull_manualControl tx i json w) ! i)) =
           hysteresis (settings (greenhouses w ! i))"
    and "autoMode (settings (greenhouses (pull_manualControl tx i json w) ! i)) =
           autoMode (settings (greenhouses w ! i))"
  using assms
  by (auto simp: pull_manualControl_def Let_def send_upd_settings split: option.splits)

lemma pull_manualControl_radio:
  assumes "i < length (greenhouses w)" and "i < 256"
  shows "radio (pull_manualControl tx i json w) =
     radio w @
       (case doc_manualControl json of
          None \<Rightarrow> []
        | Some c \<Rightarrow>
            if isOnline (greenhouses w ! i) \<and> manualCmd_of c \<noteq> CHR 0x00
            then [(\<lparr>targetNodeId = of_nat i,
                    tempThreshold = temperatureThreshold (settings (greenhouses w ! i)),
                    msg_hysteresis = hysteresis (settings (greenhouses w ! i)),
                    msg_autoMode = autoMode (settings (greenhouses w ! i)),
                    msg_manualCommand = manualCmd_of c\<rparr>,
                   tx (length (radio w)))]
            else [])"
  using assms by (simp add: pull_manualControl_def Let_def send_upd_radio split: option.splits)

lemma pull_manualControl_command:
  assumes "i < length (greenhouses w)" and "i < 256"
  shows "manualCommand (settings (greenhouses (pull_manualControl tx i json w) ! i)) =
     (case doc_manualControl json of
        None \<Rightarrow> manualCommand (settings (greenhouses w ! i))
      | Some c \<Rightarrow>
          if manualCmd_of c = CHR 0x00 then manualCommand (settings (greenhouses w ! i))
          else if isOnline (greenhouses w ! i) then CHR 0x00 else manualCmd_of c)"
  using assms
  by (auto simp: pull_manualControl_def Let_def send_upd_settings split: option.splits)

subsection \<open>\<open>saveSettingsToEEPROM\<close>\<close>

lemma save_body_rest [simp]:
  "greenhouses (save_body k w) = greenhouses w"
  "radio (save_body k w) = radio w"
  "rtdb_settings (save_body k w) = rtdb_settings w"
  by (simp_all add: save_body_def)

lemma save_loop_rest [simp]:
  "greenhouses (fold save_body js w) = greenhouses w"
  "radio (fold save_body js w) = radio w"
  "rtdb_settings (fold save_body js w) = rtdb_settings w"
  by (induction js arbitrary: w) simp_all

lemma saveSettingsToEEPROM_rest [simp]:
  "greenhouses (saveSettingsToEEPROM M w) = greenhouses w"
  "radio (saveSettingsToEEPROM M w) = radio w"
  "rtdb_settings (saveSettingsToEEPROM M w) = rtdb_settings w"
  unfolding saveSettingsToEEPROM_def by (simp_all del: upt_Suc)

lemma save_loop_eeprom:
  assumes "\<forall>k \<in> set js. 1 \<le> k"
  shows "eeprom (fold save_body js w) x =
     (if Suc x \<in> set js then settings (greenhouses w ! Suc x) else eeprom w x)"
  using assms
proof (induction js arbitrary: w)
  case Nil
  then show ?case by simp
next
  case (Cons a js)
  then have "1 \<le> a" by simp
  then have "(a - 1 = x) = (a = Suc x)" by auto
  with Cons show ?case by (auto simp: save_body_def)
qed

lemma saveSettingsToEEPROM_eeprom:
  assumes "1 \<le> k" and "k \<le> M"
  shows "eeprom (saveSettingsToEEPROM M w) (k - 1) = settings (greenhouses w ! k)"
proof -
  have "\<forall>j \<in> set [1 ..< Suc M]. 1 \<le> j" by auto
  from save_loop_eeprom [OF this, of w "k - 1"] assms show ?thesis
    unfolding saveSettingsToEEPROM_def by (simp del: upt_Suc)
qed

subsection \<open>One iteration\<close>

lemma pull_node_None: "rtdb_settings w i = None \<Longrightarrow> pull_node M tx i w = w"
  by (simp add: pull_node_def)

lemma pull_node_Some:
  "rtdb_settings w i = Some json \<Longrightarrow>
   pull_node M tx i w =
     saveSettingsToEEPROM M
       (pull_manualControl tx i json (pull_mode tx i json
          (pull_hysteresis tx i json (pull_threshold tx i json w))))"
  by (simp add: pull_node_def)

lemma pull_node_length [simp]:
  "length (greenhouses (pull_node M tx i w)) = length (greenhouses w)"
  by (simp add: pull_node_def split: option.splits)

lemma pull_node_isOnline:
  assumes "i < length (greenhouses w)" and "i < 256"
  shows "isOnline (greenhouses (pull_node M tx i w) ! i) = isOnline (greenhouses w ! i)"
  using assms
  by (simp add: pull_node_def pull_manualControl_isOnline pull_mode_isOnline
        pull_hysteresis_isOnline pull_threshold_isOnline split: option.splits)

lemma pull_node_fields:
  assumes "i < length (greenhouses w)" and "i < 256" and "rtdb_settings w i = Some json"
  shows "temperatureThreshold (settings (greenhouses (pull_node M tx i w) ! i)) =
           (case doc_temperatureThreshold json of
              None \<Rightarrow> temperatureThreshold (settings (greenhouses w ! i)) | Some v \<Rightarrow> v)"
    and "hysteresis (settings (greenhouses (pull_node M tx i w) ! i)) =
           (case doc_hysteresis json of
              None \<Rightarrow> hysteresis (settings (greenhouses w ! i)) | Some v \<Rightarrow> v)"
    and "autoMode (settings (greenhouses (pull_node M tx i w) ! i)) =
           (case doc_mode json of
              None \<Rightarrow> autoMode (settings (greenhouses w ! i)) | Some m \<Rightarrow> (m = ''auto''))"
  using assms
  by (simp_all add: pull_node_Some pull_manualControl_fields pull_mode_fields
        pull_hysteresis_fields pull_threshold_fields split: option.splits)

lemma pull_node_rtdb:
  assumes "rtdb_settings w i = Some json"
  shows "rtdb_settings (pull_node M tx i w) i =
     Some (case doc_manualControl json of
             None \<Rightarrow> json
           | Some c \<Rightarrow> if manualCmd_of c \<noteq> CHR 0x00 then json\<lparr>doc_manualControl := None\<rparr> else json)"
  using assms by (simp add: pull_node_Some pull_manualControl_rtdb split: option.splits)

lemma pull_node_radio_length:
  assumes "i < length (greenhouses w)" and "i < 256" and "rtdb_settings w i = Some json"
  shows "length (radio (pull_node M tx i w)) =
     length (radio w) +
       (if isOnline (greenhouses w ! i)
        then differing_fields json (settings (greenhouses w ! i)) else 0)"
proof -
  define w1 where "w1 = pull_threshold tx i json w"
  define w2 where "w2 = pull_hysteresis tx i json w1"
  define w3 where "w3 = pull_mode tx i json w2"
  define w4 where "w4 = pull_manualControl tx i json w3"
  have l1: "i < length (greenhouses w1)" and l2: "i < length (greenhouses w2)"
    and l3: "i < length (greenhouses w3)"
    using assms(1) by (simp_all add: w1_def w2_def w3_def)
  have o1: "isOnline (greenhouses w1 ! i) = isOnline (greenhouses w ! i)"
    using assms by (simp add: w1_def pull_threshold_isOnline)
  have o2: "isOnline (greenhouses w2 ! i) = isOnline (greenhouses w ! i)"
    using l1 assms(2) o1 by (simp add: w2_def pull_hysteresis_isOnline)
  have o3: "isOnline (greenhouses w3 ! i) = isOnline (greenhouses w ! i)"
    using l2 assms(2) o2 by (simp add: w3_def pull_mode_isOnline)
  have h1: "hysteresis (settings (greenhouses w1 ! i)) = hysteresis (settings (greenhouses w ! i))"
    using assms by (simp add: w1_def pull_threshold_fields)
  have a2: "autoMode (settings (greenhouses w2 ! i)) = autoMode (settings (greenhouses w ! i))"
    using assms l1 by (simp add: w1_def w2_def pull_threshold_fields pull_hysteresis_fields)
  have r1: "length (radio w1) = length (radio w) +
      (case doc_temperatureThreshold json of None \<Rightarrow> 0
       | Some v \<Rightarrow> if isOnline (greenhouses w ! i)
                      \<and> f_neq v (temperatureThreshold (settings (greenhouses w ! i)))
                   then 1 else 0)"
    using assms by (simp add: w1_def pull_threshold_radio split: option.splits)
  have r2: "length (radio w2) = length (radio w1) +
      (case doc_hysteresis json of None \<Rightarrow> 0
       | Some v \<Rightarrow> if isOnline (greenhouses w ! i)
                      \<and> f_neq v (hysteresis (settings (greenhouses w ! i)))
                   then 1 else 0)"
    using l1 assms(2) o1 h1 by (simp add: w2_def pull_hysteresis_radio split: option.splits)
  have r3: "length (radio w3) = length (radio w2) +
      (case doc_mode json of None \<Rightarrow> 0
       | Some m \<Rightarrow> if isOnline (greenhouses w ! i)
                      \<and> (m = ''auto'') \<noteq> autoMode (settings (greenhouses w ! i))
                   then 1 else 0)"
    using l2 assms(2) o2 a2 by (simp add: w3_def pull_mode_radio split: option.splits)
  have r4: "length (radio w4) = length (radio w3) +
      (case doc_manualControl json of None \<Rightarrow> 0
       | Some c \<Rightarrow> if isOnline (greenhouses w ! i) \<and> manualCmd_of c \<noteq> CHR 0x00
                   then 1 else 0)"
    using l3 assms(2) o3 by (simp add: w4_def pull_manualControl_radio split: option.splits)
  have "radio (pull_node M tx i w) = radio w4"
    using assms(3) by (simp add: pull_node_Some w4_def w3_def w2_def w1_def)
  then show ?thesis
    using r1 r2 r3 r4 by (simp add: differing_fields_def split: option.splits)
qed

lemma pull_node_eeprom:
  assumes "rtdb_settings w i = Some json" and "1 \<le> k" and "k \<le> M"
  shows "eeprom (pull_node M tx i w) (k - 1) = settings (greenhouses (pull_node M tx i w) ! k)"
  using assms(1) saveSettingsToEEPROM_eeprom [OF assms(2,3)] by (simp add: pull_node_Some)

lemma pull_threshold_command:
  assumes "i < length (greenhouses w)" and "i < 256" and "isOnline (greenhouses w ! i)"
  shows "manualCommand (settings (greenhouses (pull_threshold tx i json w) ! i)) =
     (if sent_for_threshold i json (settings (greenhouses w ! i)) = []
      then manualCommand (settings (greenhouses w ! i)) else CHR 0x00)"
  using assms
  by (auto simp: pull_threshold_def sent_for_threshold_def send_upd_settings split: option.splits)

lemma pull_hysteresis_command:
  assumes "i < length (greenhouses w)" and "i < 256" and "isOnline (greenhouses w ! i)"
  shows "manualCommand (settings (greenhouses (pull_hysteresis tx i json w) ! i)) =
     (case doc_hysteresis json of
        None \<Rightarrow> manualCommand (settings (greenhouses w ! i))
      | Some h \<Rightarrow> if f_neq h (hysteresis (settings (greenhouses w ! i))) then CHR 0x00
                  else manualCommand (settings (greenhouses w ! i)))"
  using assms
  by (auto simp: pull_hysteresis_def send_upd_settings split: option.splits)

lemma pull_messages_sent:
  assumes "i < length (greenhouses w)" and "i < 256" and "rtdb_settings w i = Some json"
    and "isOnline (greenhouses w ! i)"
  shows "map fst (radio (pull_node M tx i w)) =
     map fst (radio w) @ pull_messages i json (settings (greenhouses w ! i))"
proof -
  define s where "s = settings (greenhouses w ! i)"
  define w1 where "w1 = pull_threshold tx i json w"
  define w2 where "w2 = pull_hysteresis tx i json w1"
  define w3 where "w3 = pull_mode tx i json w2"
  define w4 where "w4 = pull_manualControl tx i json w3"
  have l1: "i < length (greenhouses w1)" and l2: "i < length (greenhouses w2)"
    and l3: "i < length (greenhouses w3)"
    using assms(1) by (simp_all add: w1_def w2_def w3_def)
  have o1: "isOnline (greenhouses w1 ! i)"
    using assms by (simp add: w1_def pull_threshold_isOnline)
  have o2: "isOnline (greenhouses w2 ! i)"
    using l1 assms(2) o1 by (simp add: w2_def pull_hysteresis_isOnline)
  have o3: "isOnline (greenhouses w3 ! i)"
    using l2 assms(2) o2 by (simp add: w3_def pull_mode_isOnline)
  note f1 = pull_threshold_fields [OF assms(1,2), of tx json, folded w1_def s_def]
  note f2 = pull_hysteresis_fields [OF l1 assms(2), of tx json, folded w2_def, unfolded f1]
  note f3 = pull_mode_fields [OF l2 assms(2), of tx json, folded w3_def, unfolded f2]
  note c1 = pull_threshold_command [OF assms(1,2,4), of tx json, folded w1_def s_def]
  note c2 = pull_hysteresis_command [OF l1 assms(2) o1, of tx json, folded w2_def, unfolded f1 c1]
  have r1: "map fst (radio w1) = map fst (radio w) @ sent_for_threshold i json s"
    using assms(4)
    by (simp add: w1_def s_def pull_threshold_radio [OF assms(1,2)] sent_for_threshold_def
          split: option.splits)
  have r2: "map fst (radio w2) = map fst (radio w1) @ sent_for_hysteresis i json s"
    using o1
    by (simp add: w2_def pull_hysteresis_radio [OF l1 assms(2)] sent_for_hysteresis_def
          f1 c1 split: option.splits)
  have r3: "map fst (radio w3) = map fst (radio w2) @ sent_for_mode i json s"
    using o2
    by (auto simp: w3_def pull_mode_radio [OF l2 assms(2)] sent_for_mode_def
          sent_for_hysteresis_def f2 c2 split: option.splits)
  have r4: "map fst (radio w4) = map fst (radio w3) @ sent_for_manualControl i json s"
    using o3
    by (simp add: w4_def pull_manualControl_radio [OF l3 assms(2)] sent_for_manualControl_def
          f3 split: option.splits)
  have "radio (pull_node M tx i w) = radio w4"
    using assms(3) by (simp add: pull_node_Some w4_def w3_def w2_def w1_def)
  then show ?thesis
    using r1 r2 r3 r4 by (simp add: pull_messages_def s_def)
qed

lemma pull_node_unseen_silent:
  assumes "i < length (greenhouses w)" and "i < 256" and "rtdb_settings w i = Some json"
    and "\<not> isOnline (greenhouses w ! i)"
  shows "radio (pull_node M tx i w) = radio w"
proof -
  define w1 where "w1 = pull_threshold tx i json w"
  define w2 where "w2 = pull_hysteresis tx i json w1"
  define w3 where "w3 = pull_mode tx i json w2"
  have l1: "i < length (greenhouses w1)" and l2: "i < length (greenhouses w2)"
    and l3: "i < length (greenhouses w3)"
    using assms(1) by (simp_all add: w1_def w2_def w3_def)
  have o1: "\<not> isOnline (greenhouses w1 ! i)"
    using assms by (simp add: w1_def pull_threshold_isOnline)
  have o2: "\<not> isOnline (greenhouses w2 ! i)"
    using l1 assms(2) o1 by (simp add: w2_def pull_hysteresis_isOnline)
  have o3: "\<not> isOnline (greenhouses w3 ! i)"
    using l2 assms(2) o2 by (simp add: w3_def pull_mode_isOnline)
  have r1: "radio w1 = radio w"
    using assms(4) by (simp add: w1_def pull_threshold_radio [OF assms(1,2)] split: option.splits)
  have r2: "radio w2 = radio w1"
    using o1 by (simp add: w2_def pull_hysteresis_radio [OF l1 assms(2)] split: option.splits)
  have r3: "radio w3 = radio w2"
    using o2 by (simp add: w3_def pull_mode_radio [OF l2 assms(2)] split: option.splits)
  have r4: "radio (pull_manualControl tx i json w3) = radio w3"
    using o3 by (simp add: pull_manualControl_radio [OF l3 assms(2)] split: option.splits)
  have "radio (pull_node M tx i w) = radio (pull_manualControl tx i json w3)"
    using assms(3) by (simp add: pull_node_Some w3_def w2_def w1_def)
  then show ?thesis using r1 r2 r3 r4 by simp
qed

text \<open>
  C4, as amended. The code has no dirty flag: the four blocks run in the order
  \<open>temperatureThreshold\<close>, \<open>hysteresis\<close>, \<open>mode\<close>, \<open>manualControl\<close>, each calls
  \<open>sendControlToNode\<close> at once, before the later fields are read, and
  \<open>saveSettingsToEEPROM\<close> runs whenever the document is readable. For a node \<open>i\<close> from 1
  to \<open>MAX_GREENHOUSES\<close>: if the document is absent or unreadable, the state is unchanged
  (no send, no persist); otherwise, for a node that has been heard, the messages sent are
  those of \<open>pull_messages\<close>, one for each differing field in the order of the blocks, each
  with the later fields at their old local values; for a node never heard nothing is sent;
  the number of messages is the number of differing fields for a heard node and 0
  otherwise; and the EEPROM afterwards holds the settings of every node, whether or not a
  field differed.
\<close>

theorem pull_node_sends_per_field:
  assumes "length (greenhouses w) = Suc M" and "M < 256" and "1 \<le> i" and "i \<le> M"
  shows "(rtdb_settings w i = None \<longrightarrow> pull_node M tx i w = w)
    \<and> (\<forall>json. rtdb_settings w i = Some json \<longrightarrow>
          (isOnline (greenhouses w ! i) \<longrightarrow>
             map fst (radio (pull_node M tx i w)) =
               map fst (radio w) @ pull_messages i json (settings (greenhouses w ! i)))
          \<and> (\<not> isOnline (greenhouses w ! i) \<longrightarrow> radio (pull_node M tx i w) = radio w)
          \<and> length (radio (pull_node M tx i w)) =
            length (radio w) +
              (if isOnline (greenhouses w ! i)
               then differing_fields json (settings (greenhouses w ! i)) else 0)
          \<and> (\<forall>k. 1 \<le> k \<and> k \<le> M \<longrightarrow>
                eeprom (pull_node M tx i w) (k - 1)
                  = settings (greenhouses (pull_node M tx i w) ! k)))"
proof -
  have r: "i < length (greenhouses w)" "i < 256" using assms by simp_all
  show ?thesis
    using pull_node_None [of w i M tx] pull_node_radio_length [OF r, of _ M tx]
      pull_node_eeprom [of w i _ _ M tx] pull_messages_sent [OF r, of _ M tx]
      pull_node_unseen_silent [OF r, of _ M tx]
    by blast
qed

lemmas example_defs = example_hub_def empty_doc_def boot_hub_def seen_node_def unseen_node_def
  default_settings_def default_schedule_def zero_sensor_def

lemmas pull_defs = pull_node_def pull_threshold_def pull_hysteresis_def pull_mode_def
  pull_manualControl_def clear_manualControl_def upd_settings_def sendControlToNode_def
  saveSettingsToEEPROM_def save_body_def manualCmd_of_def f_neq_def Let_def

theorem pull_node_sends_per_field_witness:
  "length (greenhouses (example_hub default_settings
       (empty_doc\<lparr>doc_hysteresis := Some (Fin 2), doc_manualControl := Some ''stop''\<rparr>))) = Suc 1
   \<and> rtdb_settings (example_hub default_settings
       (empty_doc\<lparr>doc_hysteresis := Some (Fin 2), doc_manualControl := Some ''stop''\<rparr>)) 1
      = Some (empty_doc\<lparr>doc_hysteresis := Some (Fin 2), doc_manualControl := Some ''stop''\<rparr>)
   \<and> map fst (radio (pull_node 1 (\<lambda>k. k = 0) 1 (example_hub default_settings
       (empty_doc\<lparr>doc_hysteresis := Some (Fin 2), doc_manualControl := Some ''stop''\<rparr>))))
      = [\<lparr>targetNodeId = 1, tempThreshold = Fin 25, msg_hysteresis = Fin 2,
          msg_autoMode = True, msg_manualCommand = CHR 0x00\<rparr>,
         \<lparr>targetNodeId = 1, tempThreshold = Fin 25, msg_hysteresis = Fin 2,
          msg_autoMode = True, msg_manualCommand = CHR ''S''\<rparr>]
   \<and> length (radio (pull_node 1 (\<lambda>k. k = 0) 1 (example_hub default_settings
       (empty_doc\<lparr>doc_hysteresis := Some (Fin 2), doc_manualControl := Some ''stop''\<rparr>)))) = 2
   \<and> eeprom (pull_node 1 (\<lambda>k. k = 0) 1 (example_hub default_settings
       (empty_doc\<lparr>doc_hysteresis := Some (Fin 2), doc_manualControl := Some ''stop''\<rparr>))) 0
      = settings (greenhouses (pull_node 1 (\<lambda>k. k = 0) 1 (example_hub default_settings
       (empty_doc\<lparr>doc_hysteresis := Some (Fin 2), doc_manualControl := Some ''stop''\<rparr>))) ! 1)"
proof -
  let ?d = "empty_doc\<lparr>doc_hysteresis := Some (Fin 2), doc_manualControl := Some ''stop''\<rparr>"
  let ?w = "example_hub default_settings ?d"
  have a: "length (greenhouses ?w) = Suc 1" by (simp add: example_hub_def)
  have c: "rtdb_settings ?w 1 = Some ?d" by (simp add: example_hub_def)
  have e: "isOnline (greenhouses ?w ! 1)" by (simp add: example_hub_def seen_node_def)
  have f: "radio ?w = []" by (simp add: example_hub_def boot_hub_def)
  have g: "differing_fields ?d (settings (greenhouses ?w ! 1)) = 2"
    by (simp add: differing_fields_def example_defs manualCmd_of_def f_neq_def)
  have h: "pull_messages 1 ?d (settings (greenhouses ?w ! 1))
      = [\<lparr>targetNodeId = 1, tempThreshold = Fin 25, msg_hysteresis = Fin 2,
          msg_autoMode = True, msg_manualCommand = CHR 0x00\<rparr>,
         \<lparr>targetNodeId = 1, tempThreshold = Fin 25, msg_hysteresis = Fin 2,
          msg_autoMode = True, msg_manualCommand = CHR ''S''\<rparr>]"
    by (simp add: pull_messages_def sent_for_threshold_def sent_for_hysteresis_def
          sent_for_mode_def sent_for_manualControl_def example_defs manualCmd_of_def f_neq_def)
  from pull_node_sends_per_field [OF a, of 1 "\<lambda>k. k = 0"] a c e f g h
  show ?thesis by simp
qed

text \<open>
  C4, counterexample. Node 1 has been heard and holds the default settings; the remote
  document has the threshold 30 and the hysteresis 1. Two messages are sent, the first
  still with the old hysteresis. And for a document whose only key equals the local value,
  no field differs and the EEPROM is written all the same.
\<close>

theorem pull_node_two_sends:
  "radio (example_hub default_settings
            (empty_doc\<lparr>doc_temperatureThreshold := Some (Fin 30), doc_hysteresis := Some (Fin 1)\<rparr>)) = []
   \<and> map fst (radio (pull_node 1 (\<lambda>k. True) 1
        (example_hub default_settings
            (empty_doc\<lparr>doc_temperatureThreshold := Some (Fin 30), doc_hysteresis := Some (Fin 1)\<rparr>))))
      = [\<lparr>targetNodeId = 1, tempThreshold = Fin 30, msg_hysteresis = Fin (1/2),
          msg_autoMode = True, msg_manualCommand = CHR 0x00\<rparr>,
         \<lparr>targetNodeId = 1, tempThreshold = Fin 30, msg_hysteresis = Fin 1,
          msg_autoMode = True, msg_manualCommand = CHR 0x00\<rparr>]
   \<and> differing_fields (empty_doc\<lparr>doc_temperatureThreshold := Some (Fin 30)\<rparr>)
        (default_settings\<lparr>temperatureThreshold := Fin 30\<rparr>) = 0
   \<and> eeprom (pull_node 1 (\<lambda>k. True) 1
        (example_hub (default_settings\<lparr>temperatureThreshold := Fin 30\<rparr>)
            (empty_doc\<lparr>doc_temperatureThreshold := Some (Fin 30)\<rparr>))) 0
      \<noteq> eeprom (example_hub (default_settings\<lparr>temperatureThreshold := Fin 30\<rparr>)
            (empty_doc\<lparr>doc_temperatureThreshold := Some (Fin 30)\<rparr>)) 0"
  by (simp add: example_defs pull_defs differing_fields_def)

subsection \<open>The iteration run twice\<close>

lemma save_loop_id:
  assumes "\<forall>k \<in> set js. eeprom w (k - 1) = settings (greenhouses w ! k)"
  shows "fold save_body js w = w"
  using assms
proof (induction js arbitrary: w)
  case Nil
  then show ?case by simp
next
  case (Cons a js)
  have "eeprom w (a - 1) = settings (greenhouses w ! a)" using Cons.prems by simp
  then have "(eeprom w)(a - 1 := settings (greenhouses w ! a)) = eeprom w"
    by (rule fun_upd_idem)
  then have "save_body a w = w" unfolding save_body_def by simp
  with Cons show ?case by simp
qed

lemma pull_node_saved:
  assumes "rtdb_settings w i = Some json"
  shows "saveSettingsToEEPROM M (pull_node M tx i w) = pull_node M tx i w"
  unfolding saveSettingsToEEPROM_def
proof (rule save_loop_id, rule ballI)
  fix k assume "k \<in> set [1 ..< Suc M]"
  then have "1 \<le> k" "k \<le> M" by auto
  then show "eeprom (pull_node M tx i w) (k - 1) = settings (greenhouses (pull_node M tx i w) ! k)"
    by (rule pull_node_eeprom [OF assms])
qed

lemma pull_node_twice:
  assumes "i < length (greenhouses w)" and "i < 256" and "rtdb_settings w i = Some json"
    and "doc_temperatureThreshold json \<noteq> Some NaN" and "doc_hysteresis json \<noteq> Some NaN"
  shows "pull_node M tx2 i (pull_node M tx i w) = pull_node M tx i w"
proof -
  define w' where "w' = pull_node M tx i w"
  define json' where "json' = (case doc_manualControl json of
             None \<Rightarrow> json
           | Some c \<Rightarrow> if manualCmd_of c \<noteq> CHR 0x00 then json\<lparr>doc_manualControl := None\<rparr> else json)"
  have doc': "rtdb_settings w' i = Some json'"
    unfolding w'_def json'_def by (rule pull_node_rtdb [OF assms(3)])
  have same: "doc_temperatureThreshold json' = doc_temperatureThreshold json"
    "doc_hysteresis json' = doc_hysteresis json" "doc_mode json' = doc_mode json"
    by (simp_all add: json'_def split: option.splits)
  have t: "pull_threshold tx2 i json' w' = w'"
  proof (cases "doc_temperatureThreshold json")
    case None
    then show ?thesis by (simp add: pull_threshold_def same)
  next
    case (Some v)
    with assms(4) have "\<not> isnan v" by (cases v) auto
    moreover have "temperatureThreshold (settings (greenhouses w' ! i)) = v"
      unfolding w'_def using pull_node_fields(1) [OF assms(1,2,3)] Some by simp
    ultimately show ?thesis by (simp add: pull_threshold_def same Some f_neq_refl)
  qed
  have h: "pull_hysteresis tx2 i json' w' = w'"
  proof (cases "doc_hysteresis json")
    case None
    then show ?thesis by (simp add: pull_hysteresis_def same)
  next
    case (Some v)
    with assms(5) have "\<not> isnan v" by (cases v) auto
    moreover have "hysteresis (settings (greenhouses w' ! i)) = v"
      unfolding w'_def using pull_node_fields(2) [OF assms(1,2,3)] Some by simp
    ultimately show ?thesis by (simp add: pull_hysteresis_def same Some f_neq_refl)
  qed
  have m: "pull_mode tx2 i json' w' = w'"
  proof (cases "doc_mode json")
    case None
    then show ?thesis by (simp add: pull_mode_def same)
  next
    case (Some v)
    have "autoMode (settings (greenhouses w' ! i)) = (v = ''auto'')"
      unfolding w'_def using pull_node_fields(3) [OF assms(1,2,3)] Some by simp
    then show ?thesis by (simp add: pull_mode_def same Some Let_def)
  qed
  have c: "pull_manualControl tx2 i json' w' = w'"
    by (simp add: pull_manualControl_def json'_def Let_def split: option.splits)
  have "pull_node M tx2 i w' = saveSettingsToEEPROM M w'"
    by (simp add: pull_node_Some [OF doc'] t h m c)
  also have "\<dots> = w'"
    unfolding w'_def by (rule pull_node_saved [OF assms(3)])
  finally show ?thesis by (simp add: w'_def)
qed

text \<open>
  C5, as amended. For a node \<open>i\<close> from 1 to \<open>MAX_GREENHOUSES\<close> with a readable document
  whose numbers are not NaN, running the iteration a second time, on the state the first
  one left (the remote document changed by nothing but the clearing of \<open>manualControl\<close>
  that the first one does), gives that state again: no message is sent. The first time
  sends one message for each differing field of a node that has been heard, which is any
  number from 0 to 4 and not always one.
\<close>

theorem pull_node_second_time_silent:
  assumes "length (greenhouses w) = Suc M" and "M < 256" and "1 \<le> i" and "i \<le> M"
    and "rtdb_settings w i = Some json"
    and "doc_temperatureThreshold json \<noteq> Some NaN" and "doc_hysteresis json \<noteq> Some NaN"
  shows "pull_node M tx2 i (pull_node M tx i w) = pull_node M tx i w
    \<and> radio (pull_node M tx2 i (pull_node M tx i w)) = radio (pull_node M tx i w)
    \<and> length (radio (pull_node M tx i w)) =
          length (radio w) +
            (if isOnline (greenhouses w ! i)
             then differing_fields json (settings (greenhouses w ! i)) else 0)"
proof -
  have r: "i < length (greenhouses w)" "i < 256" using assms by simp_all
  have "pull_node M tx2 i (pull_node M tx i w) = pull_node M tx i w"
    by (rule pull_node_twice [OF r assms(5,6,7)])
  moreover have "length (radio (pull_node M tx i w)) =
          length (radio w) +
            (if isOnline (greenhouses w ! i)
             then differing_fields json (settings (greenhouses w ! i)) else 0)"
    by (rule pull_node_radio_length [OF r assms(5)])
  ultimately show ?thesis by simp
qed

theorem pull_node_second_time_silent_witness:
  "length (greenhouses (example_hub default_settings
       (empty_doc\<lparr>doc_mode := Some ''manual'', doc_manualControl := Some ''close''\<rparr>))) = Suc 1
   \<and> rtdb_settings (example_hub default_settings
       (empty_doc\<lparr>doc_mode := Some ''manual'', doc_manualControl := Some ''close''\<rparr>)) 1
      = Some (empty_doc\<lparr>doc_mode := Some ''manual'', doc_manualControl := Some ''close''\<rparr>)
   \<and> length (radio (pull_node 1 (\<lambda>k. True) 1 (example_hub default_settings
       (empty_doc\<lparr>doc_mode := Some ''manual'', doc_manualControl := Some ''close''\<rparr>)))) = 2
   \<and> radio (pull_node 1 (\<lambda>k. False) 1 (pull_node 1 (\<lambda>k. True) 1 (example_hub default_settings
       (empty_doc\<lparr>doc_mode := Some ''manual'', doc_manualControl := Some ''close''\<rparr>))))
      = radio (pull_node 1 (\<lambda>k. True) 1 (example_hub default_settings
       (empty_doc\<lparr>doc_mode := Some ''manual'', doc_manualControl := Some ''close''\<rparr>)))"
proof -
  let ?d = "empty_doc\<lparr>doc_mode := Some ''manual'', doc_manualControl := Some ''close''\<rparr>"
  let ?w = "example_hub default_settings ?d"
  have a: "length (greenhouses ?w) = Suc 1" by (simp add: example_hub_def)
  have c: "rtdb_settings ?w 1 = Some ?d" by (simp add: example_hub_def)
  have n: "doc_temperatureThreshold ?d \<noteq> Some NaN" "doc_hysteresis ?d \<noteq> Some NaN"
    by (simp_all add: empty_doc_def)
  have e: "isOnline (greenhouses ?w ! 1)" by (simp add: example_hub_def seen_node_def)
  have f: "radio ?w = []" by (simp add: example_hub_def boot_hub_def)
  have g: "differing_fields ?d (settings (greenhouses ?w ! 1)) = 2"
    by (simp add: differing_fields_def example_defs manualCmd_of_def f_neq_def)
  from pull_node_second_time_silent [OF a _ _ _ c n, of "\<lambda>k. False" "\<lambda>k. True"] a c e f g
  show ?thesis by simp
qed

text \<open>
  C5, counterexample. With threshold, hysteresis and mode all different from the local
  values, the first run sends three messages; with an empty document it sends none.
\<close>

theorem pull_node_first_time_three_sends:
  "radio (example_hub default_settings
            (empty_doc\<lparr>doc_temperatureThreshold := Some (Fin 30), doc_hysteresis := Some (Fin 1),
                       doc_mode := Some ''manual''\<rparr>)) = []
   \<and> length (radio (pull_node 1 (\<lambda>k. True) 1
        (example_hub default_settings
            (empty_doc\<lparr>doc_temperatureThreshold := Some (Fin 30), doc_hysteresis := Some (Fin 1),
                       doc_mode := Some ''manual''\<rparr>)))) = 3
   \<and> length (radio (pull_node 1 (\<lambda>k. True) 1
        (example_hub default_settings empty_doc))) = 0"
  by (simp add: example_defs pull_defs)


subsection \<open>Remote values are not validated\<close>

lemma step_radio_take:
  assumes "i < length (greenhouses w)" and "i < 256" and "n \<le> length (radio w)"
  shows "take n (radio (pull_hysteresis tx i json w)) = take n (radio w)"
    and "take n (radio (pull_mode tx i json w)) = take n (radio w)"
    and "take n (radio (pull_manualControl tx i json w)) = take n (radio w)"
  using assms
  by (simp_all add: pull_hysteresis_radio pull_mode_radio pull_manualControl_radio)

text \<open>
  C8. The download loop applies the remote threshold as it is, with no check of range or
  finiteness: for a node \<open>i\<close> from 1 to \<open>MAX_GREENHOUSES\<close> that has been heard and a
  remote threshold \<open>v\<close> that differs from the local one, \<open>v\<close> is the local threshold
  afterwards and the next message sent carries \<open>v\<close>. The witness has \<open>v = 999\<close>.
\<close>

theorem pull_node_unvalidated_threshold:
  assumes "length (greenhouses w) = Suc M" and "M < 256" and "1 \<le> i" and "i \<le> M"
    and "rtdb_settings w i = Some json"
    and "doc_temperatureThreshold json = Some v"
    and "f_neq v (temperatureThreshold (settings (greenhouses w ! i)))"
    and "isOnline (greenhouses w ! i)"
  shows "temperatureThreshold (settings (greenhouses (pull_node M tx i w) ! i)) = v
    \<and> take (Suc (length (radio w))) (radio (pull_node M tx i w)) =
        radio w @ [(\<lparr>targetNodeId = of_nat i, tempThreshold = v,
                     msg_hysteresis = hysteresis (settings (greenhouses w ! i)),
                     msg_autoMode = autoMode (settings (greenhouses w ! i)),
                     msg_manualCommand = manualCommand (settings (greenhouses w ! i))\<rparr>,
                    tx (length (radio w)))]"
proof -
  have r: "i < length (greenhouses w)" "i < 256" using assms by simp_all
  define w1 where "w1 = pull_threshold tx i json w"
  define w2 where "w2 = pull_hysteresis tx i json w1"
  define w3 where "w3 = pull_mode tx i json w2"
  have l1: "i < length (greenhouses w1)" and l2: "i < length (greenhouses w2)"
    and l3: "i < length (greenhouses w3)"
    using r(1) by (simp_all add: w1_def w2_def w3_def)
  have r1: "radio w1 =
        radio w @ [(\<lparr>targetNodeId = of_nat i, tempThreshold = v,
                     msg_hysteresis = hysteresis (settings (greenhouses w ! i)),
                     msg_autoMode = autoMode (settings (greenhouses w ! i)),
                     msg_manualCommand = manualCommand (settings (greenhouses w ! i))\<rparr>,
                    tx (length (radio w)))]"
    using assms(6,7,8) by (simp add: w1_def pull_threshold_radio [OF r])
  then have n1: "Suc (length (radio w)) \<le> length (radio w1)" by simp
  have t2: "take (Suc (length (radio w))) (radio w2) = take (Suc (length (radio w))) (radio w1)"
    unfolding w2_def by (rule step_radio_take(1) [OF l1 r(2) n1])
  then have n2: "Suc (length (radio w)) \<le> length (radio w2)"
    using n1 by (metis length_take min.absorb2 min.cobounded1)
  have t3: "take (Suc (length (radio w))) (radio w3) = take (Suc (length (radio w))) (radio w2)"
    unfolding w3_def by (rule step_radio_take(2) [OF l2 r(2) n2])
  then have n3: "Suc (length (radio w)) \<le> length (radio w3)"
    using n2 by (metis length_take min.absorb2 min.cobounded1)
  have t4: "take (Suc (length (radio w))) (radio (pull_manualControl tx i json w3))
      = take (Suc (length (radio w))) (radio w3)"
    by (rule step_radio_take(3) [OF l3 r(2) n3])
  have "radio (pull_node M tx i w) = radio (pull_manualControl tx i json w3)"
    using assms(5) by (simp add: pull_node_Some w3_def w2_def w1_def)
  then have "take (Suc (length (radio w))) (radio (pull_node M tx i w)) = radio w1"
    using t4 t3 t2 r1 by simp
  moreover have "temperatureThreshold (settings (greenhouses (pull_node M tx i w) ! i)) = v"
    using pull_node_fields(1) [OF r assms(5), of M tx] assms(6) by simp
  ultimately show ?thesis using r1 by simp
qed

theorem pull_node_unvalidated_threshold_witness:
  "\<not> finite_within 0 50 (Fin 999)
   \<and> rtdb_settings (example_hub default_settings
        (empty_doc\<lparr>doc_temperatureThreshold := Some (Fin 999)\<rparr>)) 1
      = Some (empty_doc\<lparr>doc_temperatureThreshold := Some (Fin 999)\<rparr>)
   \<and> isOnline (greenhouses (example_hub default_settings
        (empty_doc\<lparr>doc_temperatureThreshold := Some (Fin 999)\<rparr>)) ! 1)
   \<and> temperatureThreshold (settings (greenhouses (pull_node 1 (\<lambda>k. True) 1
        (example_hub default_settings
           (empty_doc\<lparr>doc_temperatureThreshold := Some (Fin 999)\<rparr>))) ! 1)) = Fin 999
   \<and> take (Suc 0) (radio (pull_node 1 (\<lambda>k. True) 1
        (example_hub default_settings
           (empty_doc\<lparr>doc_temperatureThreshold := Some (Fin 999)\<rparr>))))
      = [(\<lparr>targetNodeId = 1, tempThreshold = Fin 999, msg_hysteresis = Fin (1/2),
           msg_autoMode = True, msg_manualCommand = CHR 0x00\<rparr>, True)]"
proof -
  let ?d = "empty_doc\<lparr>doc_temperatureThreshold := Some (Fin 999)\<rparr>"
  let ?w = "example_hub default_settings ?d"
  have a: "length (greenhouses ?w) = Suc 1" by (simp add: example_hub_def)
  have c: "rtdb_settings ?w 1 = Some ?d" by (simp add: example_hub_def)
  have v: "doc_temperatureThreshold ?d = Some (Fin 999)" by simp
  have e: "isOnline (greenhouses ?w ! 1)" by (simp add: example_hub_def seen_node_def)
  have f: "radio ?w = []" by (simp add: example_hub_def boot_hub_def)
  have g: "settings (greenhouses ?w ! 1) = default_settings"
    by (simp add: example_hub_def seen_node_def)
  have d: "f_neq (Fin 999) (temperatureThreshold (settings (greenhouses ?w ! 1)))"
    by (simp add: example_hub_def seen_node_def default_settings_def f_neq_def)
  from pull_node_unvalidated_threshold [OF a _ _ _ c v d e, of "\<lambda>k. True"] c e f g
  show ?thesis by (simp add: default_settings_def)
qed

subsection \<open>Manual commands\<close>

text \<open>
  C3. For a node \<open>i\<close> from 1 to \<open>MAX_GREENHOUSES\<close> whose remote document has the key
  \<open>manualControl\<close> with the string \<open>c\<close>: \<open>open\<close>, \<open>close\<close> and \<open>stop\<close> stand for the
  commands \<open>O\<close>, \<open>C\<close> and \<open>S\<close>; for any other string the block does nothing; for one of
  the three the command is stored, \<open>sendControlToNode\<close> is called for the node (a node
  that has been heard is sent the message with the command) and the key is removed from the
  remote document, so that the document left after the iteration is without it.
\<close>

theorem pull_manualControl_applies:
  assumes "length (greenhouses w) = Suc M" and "M < 256" and "1 \<le> i" and "i \<le> M"
    and "doc_manualControl json = Some c"
  shows "manualCmd_of ''open'' = CHR ''O'' \<and> manualCmd_of ''close'' = CHR ''C''
    \<and> manualCmd_of ''stop'' = CHR ''S''
    \<and> (c \<noteq> ''open'' \<and> c \<noteq> ''close'' \<and> c \<noteq> ''stop'' \<longrightarrow>
          pull_manualControl tx i json w = w)
    \<and> (c = ''open'' \<or> c = ''close'' \<or> c = ''stop'' \<longrightarrow>
          pull_manualControl tx i json w =
            clear_manualControl i (sendControlToNode tx (of_nat i)
              (upd_settings i (\<lambda>s. s\<lparr>manualCommand := manualCmd_of c\<rparr>) w))
        \<and> radio (pull_manualControl tx i json w) =
            radio w @
              (if isOnline (greenhouses w ! i)
               then [(\<lparr>targetNodeId = of_nat i,
                       tempThreshold = temperatureThreshold (settings (greenhouses w ! i)),
                       msg_hysteresis = hysteresis (settings (greenhouses w ! i)),
                       msg_autoMode = autoMode (settings (greenhouses w ! i)),
                       msg_manualCommand = manualCmd_of c\<rparr>,
                      tx (length (radio w)))]
               else [])
        \<and> rtdb_settings (pull_manualControl tx i json w) i =
            map_option (\<lambda>d. d\<lparr>doc_manualControl := None\<rparr>) (rtdb_settings w i)
        \<and> (rtdb_settings w i = Some json \<longrightarrow>
             rtdb_settings (pull_node M tx i w) i = Some (json\<lparr>doc_manualControl := None\<rparr>)))"
proof -
  have r: "i < length (greenhouses w)" "i < 256" using assms by simp_all
  have names: "manualCmd_of ''open'' = CHR ''O'' \<and> manualCmd_of ''close'' = CHR ''C''
    \<and> manualCmd_of ''stop'' = CHR ''S''"
    by (simp add: manualCmd_of_def)
  have other: "pull_manualControl tx i json w = w"
    if "c \<noteq> ''open'' \<and> c \<noteq> ''close'' \<and> c \<noteq> ''stop''"
    using that assms(5) by (simp add: pull_manualControl_def manualCmd_of_def)
  have known: "manualCmd_of c \<noteq> CHR 0x00" if "c = ''open'' \<or> c = ''close'' \<or> c = ''stop''"
    using that by (auto simp: manualCmd_of_def)
  have step: "pull_manualControl tx i json w =
            clear_manualControl i (sendControlToNode tx (of_nat i)
              (upd_settings i (\<lambda>s. s\<lparr>manualCommand := manualCmd_of c\<rparr>) w))"
    if "c = ''open'' \<or> c = ''close'' \<or> c = ''stop''"
    using known [OF that] assms(5) by (simp add: pull_manualControl_def Let_def)
  have sent: "radio (pull_manualControl tx i json w) =
            radio w @
              (if isOnline (greenhouses w ! i)
               then [(\<lparr>targetNodeId = of_nat i,
                       tempThreshold = temperatureThreshold (settings (greenhouses w ! i)),
                       msg_hysteresis = hysteresis (settings (greenhouses w ! i)),
                       msg_autoMode = autoMode (settings (greenhouses w ! i)),
                       msg_manualCommand = manualCmd_of c\<rparr>,
                      tx (length (radio w)))]
               else [])"
    if "c = ''open'' \<or> c = ''close'' \<or> c = ''stop''"
    using known [OF that] assms(5) by (simp add: pull_manualControl_radio [OF r])
  have cleared: "rtdb_settings (pull_manualControl tx i json w) i =
            map_option (\<lambda>d. d\<lparr>doc_manualControl := None\<rparr>) (rtdb_settings w i)"
    if "c = ''open'' \<or> c = ''close'' \<or> c = ''stop''"
    using known [OF that] assms(5) by (simp add: pull_manualControl_rtdb)
  have node: "rtdb_settings (pull_node M tx i w) i = Some (json\<lparr>doc_manualControl := None\<rparr>)"
    if "c = ''open'' \<or> c = ''close'' \<or> c = ''stop''" and "rtdb_settings w i = Some json"
    using known [OF that(1)] assms(5) pull_node_rtdb [OF that(2), of M tx] by simp
  from names other step sent cleared node show ?thesis by blast
qed

theorem pull_manualControl_applies_witness:
  "length (greenhouses
       (example_hub default_settings (empty_doc\<lparr>doc_manualControl := Some ''open''\<rparr>))) = Suc 1
   \<and> doc_manualControl (empty_doc\<lparr>doc_manualControl := Some ''open''\<rparr>) = Some ''open''
   \<and> rtdb_settings (pull_node 1 (\<lambda>k. True) 1
       (example_hub default_settings (empty_doc\<lparr>doc_manualControl := Some ''open''\<rparr>))) 1
     = Some empty_doc
   \<and> radio (pull_manualControl (\<lambda>k. True) 1 (empty_doc\<lparr>doc_manualControl := Some ''open''\<rparr>)
       (example_hub default_settings (empty_doc\<lparr>doc_manualControl := Some ''open''\<rparr>)))
     = [(\<lparr>targetNodeId = 1, tempThreshold = Fin 25, msg_hysteresis = Fin (1/2),
          msg_autoMode = True, msg_manualCommand = CHR ''O''\<rparr>, True)]"
proof -
  let ?d = "empty_doc\<lparr>doc_manualControl := Some ''open''\<rparr>"
  let ?w = "example_hub default_settings ?d"
  have a: "length (greenhouses ?w) = Suc 1" by (simp add: example_hub_def)
  have b: "doc_manualControl ?d = Some ''open''" by simp
  have c: "rtdb_settings ?w 1 = Some ?d" by (simp add: example_hub_def)
  have d: "?d\<lparr>doc_manualControl := None\<rparr> = empty_doc" by (simp add: empty_doc_def)
  have e: "isOnline (greenhouses ?w ! 1)" by (simp add: example_hub_def seen_node_def)
  have f: "radio ?w = []" by (simp add: example_hub_def boot_hub_def)
  have g: "settings (greenhouses ?w ! 1) = default_settings"
    by (simp add: example_hub_def seen_node_def)
  from pull_manualControl_applies [OF a _ _ _ b, of 1 "\<lambda>k. True"] a c d e f g
  show ?thesis by (simp add: example_defs pull_defs)
qed

end
